theory Spec2Isabelle
  imports Main "HOL-Library.Sublist"
begin

section \<open>The build script of caer (setup.py)\<close>

text \<open>
  The script runs top to bottom as a module: the interpreter gate (lines 58-74), the
  imports, the reading of \<^verbatim>\<open>setup.cfg\<close> and the check of the expected settings
  (lines 87-94), the setup variables (lines 99-133) and, as the main program,
  \<^verbatim>\<open>setup_package()\<close> (lines 228-277). Python values are modelled as follows:
  a \<^verbatim>\<open>str\<close> is a \<^typ>\<open>string\<close> whose characters are the code points below 256, a
  list is a list, a dictionary is a map, an exception is a value of the type \<open>error\<close>,
  and everything the script reads from or does to its surroundings goes through the
  records \<open>env\<close> (what it reads) and \<open>world\<close> (what it changes).
\<close>

subsection \<open>Strings\<close>

abbreviation LF :: char where "LF \<equiv> CHR 0x0A"
abbreviation CR :: char where "CR \<equiv> CHR 0x0D"
abbreviation SQ :: char where "SQ \<equiv> CHR 0x27"
abbreviation DQ :: char where "DQ \<equiv> CHR 0x22"
abbreviation BSL :: char where "BSL \<equiv> CHR 0x5C"

text \<open>
  \<^verbatim>\<open>str.isspace\<close> on one character, for the code points below 256: the ASCII
  white space (tab to carriage return, the four separators 0x1C-0x1F, the space), the
  next-line control 0x85 and the no-break space 0xA0.
\<close>

definition isspace :: "char \<Rightarrow> bool" where
  "isspace c = (let n = of_char c :: nat in
     (9 \<le> n \<and> n \<le> 13) \<or> (28 \<le> n \<and> n \<le> 32) \<or> n = 133 \<or> n = 160)"

text \<open>\<^verbatim>\<open>str.strip()\<close>: white space removed at both ends.\<close>

definition lstrip :: "string \<Rightarrow> string" where
  "lstrip s = dropWhile isspace s"

definition rstrip :: "string \<Rightarrow> string" where
  "rstrip s = rev (dropWhile isspace (rev s))"

definition strip :: "string \<Rightarrow> string" where
  "strip s = rstrip (lstrip s)"

text \<open>
  \<^verbatim>\<open>str.split(sep)\<close> for a separator that is not empty: the pieces between the
  occurrences of \<open>sep\<close>, found from the left; there is always at least one piece.
  \<open>cur\<close> is the piece being read.
\<close>

function split_from :: "string \<Rightarrow> string \<Rightarrow> string \<Rightarrow> string list" where
  "split_from sep cur [] = [cur]"
| "split_from sep cur (c # cs) =
     (if sep \<noteq> [] \<and> prefix sep (c # cs)
      then cur # split_from sep [] (drop (length sep) (c # cs))
      else split_from sep (cur @ [c]) cs)"
  by pat_completeness auto
termination
  by (relation "measure (\<lambda>(sep, cur, s). length s)") (auto simp: neq_Nil_conv)

definition py_split :: "string \<Rightarrow> string \<Rightarrow> string list" where
  "py_split s sep = split_from sep [] s"

text \<open>
  A file opened in text mode: \<^verbatim>\<open>\r\n\<close> and \<^verbatim>\<open>\r\<close> are read as \<^verbatim>\<open>\n\<close>, and
  iterating over the file gives its lines, each with its terminator, the last one
  without when the file does not end in one.
\<close>

fun universal_newlines :: "string \<Rightarrow> string" where
  "universal_newlines [] = []"
| "universal_newlines [c] = (if c = CR then [LF] else [c])"
| "universal_newlines (c # d # cs) =
     (if c = CR \<and> d = LF then LF # universal_newlines cs
      else if c = CR then LF # universal_newlines (d # cs)
      else c # universal_newlines (d # cs))"

fun lines_from :: "string \<Rightarrow> string \<Rightarrow> string list" where
  "lines_from cur [] = (if cur = [] then [] else [cur])"
| "lines_from cur (c # cs) =
     (if c = LF then (cur @ [c]) # lines_from [] cs else lines_from (cur @ [c]) cs)"

definition file_lines :: "string \<Rightarrow> string list" where
  "file_lines content = lines_from [] (universal_newlines content)"

subsection \<open>Exceptions and values\<close>

text \<open>
  The exceptions the script can end with. \<open>SyntaxError\<close> is the interpreter refusing
  the file before it runs any of it; \<open>SystemExit\<close> carries the argument of
  \<^verbatim>\<open>sys.exit\<close>; \<open>ConfigParserError\<close> stands for the exceptions of the module
  \<^verbatim>\<open>configparser\<close> (a parsing error, a duplicate, an interpolation error) and carries
  the name of the class; \<open>BackendError\<close> stands for whatever \<^verbatim>\<open>setup()\<close> raises.
\<close>

datatype error =
    SyntaxError
  | SystemExit int
  | ImportError
  | TypeError
  | KeyError string
  | AssertionError string
  | ConfigParserError string
  | FileNotFoundError string
  | OSError string
  | ValueError string
  | RuntimeError string
  | BackendError string

text \<open>An element of \<^verbatim>\<open>sys.version_info\<close>: a number or the release level.\<close>

datatype pyobj = PInt int | PStr string

text \<open>What the template of the meta module is filled with: a string or a list of strings.\<close>

datatype pyval = Str string | StrList "string list"

text \<open>\<^verbatim>\<open>str()\<close> of a number and of a truth value.\<close>

definition digit_char :: "nat \<Rightarrow> char" where
  "digit_char n = ''0123456789abcdef'' ! n"

fun digits_of :: "nat \<Rightarrow> string" where
  "digits_of n =
     (if n < 10 then [digit_char n] else digits_of (n div 10) @ [digit_char (n mod 10)])"

declare digits_of.simps [simp del]

definition str_int :: "int \<Rightarrow> string" where
  "str_int i = (if i < 0 then CHR ''-'' # digits_of (nat (- i)) else digits_of (nat i))"

definition str_bool :: "bool \<Rightarrow> string" where
  "str_bool b = (if b then ''True'' else ''False'')"

text \<open>
  \<^verbatim>\<open>repr()\<close> of a string: single quotes, unless the string has a single quote and no
  double quote; the quote and the backslash are escaped, tab, newline and carriage
  return are written \<^verbatim>\<open>\t\<close>, \<^verbatim>\<open>\n\<close>, \<^verbatim>\<open>\r\<close>, and every other character that is not
  printable (below the space, 0x7F to 0xA0, 0xAD) is written \<^verbatim>\<open>\xNN\<close>.
\<close>

definition hex2 :: "nat \<Rightarrow> string" where
  "hex2 n = [digit_char (n div 16), digit_char (n mod 16)]"

definition repr_quote :: "string \<Rightarrow> char" where
  "repr_quote s = (if SQ \<in> set s \<and> DQ \<notin> set s then DQ else SQ)"

definition repr_char :: "char \<Rightarrow> char \<Rightarrow> string" where
  "repr_char q c =
     (let n = of_char c :: nat in
      if c = q \<or> c = BSL then [BSL, c]
      else if n = 9 then [BSL, CHR ''t'']
      else if n = 10 then [BSL, CHR ''n'']
      else if n = 13 then [BSL, CHR ''r'']
      else if n < 32 \<or> n = 127 then [BSL, CHR ''x''] @ hex2 n
      else if n < 127 then [c]
      else if n \<le> 160 \<or> n = 173 then [BSL, CHR ''x''] @ hex2 n
      else [c])"

definition repr_str :: "string \<Rightarrow> string" where
  "repr_str s = (let q = repr_quote s in [q] @ concat (map (repr_char q) s) @ [q])"

fun join :: "string \<Rightarrow> string list \<Rightarrow> string" where
  "join sep [] = []"
| "join sep [x] = x"
| "join sep (x # y # ys) = x @ sep @ join sep (y # ys)"

definition repr_list :: "string list \<Rightarrow> string" where
  "repr_list xs = ''['' @ join '', '' (map repr_str xs) @ '']''"

fun str_val :: "pyval \<Rightarrow> string" where
  "str_val (Str s) = s"
| "str_val (StrList xs) = repr_list xs"

text \<open>
  \<^verbatim>\<open>template % mapping\<close>, for what the template of the meta module uses: literal text,
  \<^verbatim>\<open>%%\<close> and \<^verbatim>\<open>%(key)s\<close>. The key runs to its closing parenthesis (nested ones are
  counted) and is looked up as soon as it is read; the conversion \<open>s\<close> writes
  \<^verbatim>\<open>str()\<close> of the value. Any other conversion is outside this model and is reported
  as \<open>ValueError\<close>.
\<close>

datatype fstate = Lit | Pct | Key nat string | Conv pyval

fun format_from :: "(string \<rightharpoonup> pyval) \<Rightarrow> fstate \<Rightarrow> string \<Rightarrow> string \<Rightarrow> error + string" where
  "format_from d Lit out [] = Inr out"
| "format_from d Pct out [] = Inl (ValueError ''incomplete format'')"
| "format_from d (Conv v) out [] = Inl (ValueError ''incomplete format'')"
| "format_from d (Key n k) out [] = Inl (ValueError ''incomplete format key'')"
| "format_from d Lit out (c # cs) =
     (if c = CHR ''%'' then format_from d Pct out cs else format_from d Lit (out @ [c]) cs)"
| "format_from d Pct out (c # cs) =
     (if c = CHR ''%'' then format_from d Lit (out @ [c]) cs
      else if c = CHR ''('' then format_from d (Key 0 []) out cs
      else Inl (ValueError ''unsupported format character''))"
| "format_from d (Key n k) out (c # cs) =
     (if c = CHR '')'' \<and> n = 0
      then (case d k of None \<Rightarrow> Inl (KeyError k) | Some v \<Rightarrow> format_from d (Conv v) out cs)
      else if c = CHR '')'' then format_from d (Key (n - 1) (k @ [c])) out cs
      else if c = CHR ''('' then format_from d (Key (n + 1) (k @ [c])) out cs
      else format_from d (Key n (k @ [c])) out cs)"
| "format_from d (Conv v) out (c # cs) =
     (if c = CHR ''s'' then format_from d Lit (out @ str_val v) cs
      else Inl (ValueError ''unsupported format character''))"

definition py_format :: "string \<Rightarrow> (string \<rightharpoonup> pyval) \<Rightarrow> error + string" where
  "py_format template d = format_from d Lit [] template"

text \<open>
  Comparing \<^verbatim>\<open>sys.version_info\<close> with a tuple of numbers, \<^verbatim>\<open>info < t\<close>: the first
  position where the two differ decides, a proper prefix is smaller, and a release
  level met by a number is a \<open>TypeError\<close>.
\<close>

fun tuple_lt :: "pyobj list \<Rightarrow> int list \<Rightarrow> error + bool" where
  "tuple_lt [] [] = Inr False"
| "tuple_lt [] (b # bs) = Inr True"
| "tuple_lt (a # as) [] = Inr False"
| "tuple_lt (PInt a # as) (b # bs) = (if a = b then tuple_lt as bs else Inr (a < b))"
| "tuple_lt (PStr s # as) (b # bs) = Inl TypeError"

subsection \<open>The surroundings of the script\<close>

text \<open>An \<^verbatim>\<open>Extension\<close> of setuptools, with the fields the script sets.\<close>

record extension =
  ext_name :: string
  sources :: "string list"
  include_dirs :: "string list"
  extra_compile_args :: "string list"

text \<open>The keyword arguments of \<^verbatim>\<open>setup()\<close> (lines 232-262).\<close>

record metadata =
  md_name :: string
  md_version :: string
  md_author :: string
  md_author_email :: string
  md_maintainer :: string
  md_description :: string
  md_long_description :: string
  md_long_description_content_type :: string
  md_url :: string
  md_download_url :: string
  md_project_urls :: "(string \<times> string) list"
  md_packages :: "string list"
  md_ext_modules :: "extension list"
  md_license :: string
  md_platforms :: "string list"
  md_install_requires :: "string list"
  md_extras_require :: "(string \<times> string) list"
  md_python_requires :: string
  md_cmdclass :: "(string \<times> string) list"
  md_include_package_data :: bool
  md_zip_safe :: bool
  md_keywords :: "string list"
  md_classifiers :: "string list"

text \<open>
  The calls the script makes to its collaborators, in the order it makes them: an
  \<^verbatim>\<open>Extension\<close> constructed, the generator run (with its exit status), \<^verbatim>\<open>setup()\<close>
  called.
\<close>

datatype event = ExtensionBuilt extension | Cythonized int | SetupCalled metadata

text \<open>
  What the script changes: the files that can be opened and read (path to text), the
  two output streams and the calls made so far.
\<close>

record world =
  files :: "string \<rightharpoonup> string"
  stdout :: "string list"
  stderr :: "string list"
  events :: "event list"

text \<open>
  What the script is given: the interpreter (\<^verbatim>\<open>sys.version_info\<close>,
  \<^verbatim>\<open>platform.python_version()\<close>, whether it runs with \<^verbatim>\<open>-O\<close>, which leaves the
  \<^verbatim>\<open>assert\<close> statements out), whether setuptools and numpy can be imported, what
  \<^verbatim>\<open>ConfigParser\<close> makes of \<^verbatim>\<open>setup.cfg\<close>, the result of
  \<^verbatim>\<open>find_packages()\<close> and of \<^verbatim>\<open>np.get_include()\<close>, which paths can be opened for
  writing, the generator \<^verbatim>\<open>tools/cythonize.py\<close> (its exit status and what it does to
  the files) and the backend behind \<^verbatim>\<open>setup()\<close> (what it raises, if anything, and
  what it does to the files).

  The parser is the library's, so the script is given its answers: \<open>read_error\<close> is
  what \<^verbatim>\<open>config.read('setup.cfg')\<close> raises, if anything (a file that is absent raises
  nothing and gives no section); \<open>config\<close> holds the sections, each a map from the
  options that \<^verbatim>\<open>key in cfg\<close> finds (the defaults among them) to the value \<^verbatim>\<open>cfg[key]\<close>
  returns; and \<open>lookup_error\<close> gives, for a section and an option, what \<^verbatim>\<open>cfg[key]\<close>
  raises instead of returning, if anything: the parser is made with the default
  interpolation (line 87), under which a value such as \<^verbatim>\<open>100% fast\<close> is found by
  \<^verbatim>\<open>in\<close> and raises \<^verbatim>\<open>InterpolationSyntaxError\<close> when it is looked up.
\<close>

record env =
  version_info :: "pyobj list"
  python_version :: string
  optimized :: bool
  imports_ok :: bool
  read_error :: "error option"
  config :: "string \<rightharpoonup> (string \<rightharpoonup> string)"
  lookup_error :: "string \<Rightarrow> string \<Rightarrow> error option"
  found_packages :: "string list"
  np_include :: string
  writable :: "string \<Rightarrow> bool"
  cythonize :: "(string \<rightharpoonup> string) \<Rightarrow> int \<times> (string \<rightharpoonup> string)"
  backend :: "metadata \<Rightarrow> (string \<rightharpoonup> string) \<Rightarrow> error option \<times> (string \<rightharpoonup> string)"

text \<open>The module's variables that later code reads (lines 50-56 and 99-133).\<close>

record globals =
  VERSION :: string
  ISRELEASED :: bool
  RUN_CYTHON_BUILD :: bool
  NAME :: string
  AUTHOR :: string
  AUTHOR_EMAIL :: string
  AUTHOR_LONG :: string
  LICENSE :: string
  URL :: string
  DOWNLOAD_URL :: string
  PACKAGES :: "string list"
  DESCRIPTION :: string
  LONG_DESCRIPTION :: string
  KEYWORDS :: "string list"
  REQUIREMENTS :: "string list"
  CLASSIFIERS :: "string list"
  PYTHON_REQUIRES :: string
  EXT_MODULES :: "extension list"

text \<open>Sequencing of steps that can raise: the first exception ends the sequence.\<close>

definition thn :: "error + 'a \<Rightarrow> ('a \<Rightarrow> error + 'b) \<Rightarrow> error + 'b" where
  "thn r f = (case r of Inl e \<Rightarrow> Inl e | Inr x \<Rightarrow> f x)"

text \<open>\<^verbatim>\<open>d[k]\<close> on a dictionary, and \<^verbatim>\<open>config[section]\<close> on the parsed configuration.\<close>

definition getitem :: "(string \<rightharpoonup> 'v) \<Rightarrow> string \<Rightarrow> error + 'v" where
  "getitem d k = (case d k of None \<Rightarrow> Inl (KeyError k) | Some v \<Rightarrow> Inr v)"

text \<open>
  \<^verbatim>\<open>config.read('setup.cfg')\<close> (line 88), and \<^verbatim>\<open>cfg[key]\<close> on a section: a
  \<open>KeyError\<close> when the section has no such option, otherwise what the parser's
  \<^verbatim>\<open>get\<close> does, which is to return the value or to raise an interpolation error.
\<close>

definition config_read :: "env \<Rightarrow> error + (string \<rightharpoonup> (string \<rightharpoonup> string))" where
  "config_read E = (case read_error E of Some e \<Rightarrow> Inl e | None \<Rightarrow> Inr (config E))"

definition section_getitem ::
  "env \<Rightarrow> string \<Rightarrow> (string \<rightharpoonup> string) \<Rightarrow> string \<Rightarrow> error + string" where
  "section_getitem E section cfg k =
     (case cfg k of
        None \<Rightarrow> Inl (KeyError k)
      | Some v \<Rightarrow> (case lookup_error E section k of Some e \<Rightarrow> Inl e | None \<Rightarrow> Inr v))"

subsection \<open>The version and the interpreter gate (lines 50-74)\<close>

definition MAJOR :: int where "MAJOR = 1"
definition MINOR :: int where "MINOR = 3"
definition MICRO :: int where "MICRO = 3"

definition min_version :: "int list" where
  "min_version = [3, 6, 1]"

text \<open>
  The file is written with formatted string literals (lines 54 and 67). The grammar
  has them from version 3.6 on: an older interpreter refuses the whole file with a
  \<open>SyntaxError\<close> when it compiles it, before the first statement runs.
\<close>

definition accepts_source :: "pyobj list \<Rightarrow> bool" where
  "accepts_source info = (tuple_lt info [3, 6] = Inr False)"

definition write_stderr :: "string \<Rightarrow> world \<Rightarrow> world" where
  "write_stderr s w = w\<lparr>stderr := stderr w @ [s]\<rparr>"

definition print :: "string \<Rightarrow> world \<Rightarrow> world" where
  "print s w = w\<lparr>stdout := stdout w @ [s]\<rparr>"

definition is_right_py_version :: "env \<Rightarrow> int list \<Rightarrow> world \<Rightarrow> (error + bool) \<times> world" where
  "is_right_py_version E min_py_version w =
     (case tuple_lt (version_info E) [3] of
        Inl e \<Rightarrow> (Inl e, w)
      | Inr True \<Rightarrow>
          (Inr False,
           write_stderr
             ''Python 2 has reached end-of-life and is no longer supported by Caer.'' w)
      | Inr False \<Rightarrow>
          (case tuple_lt (version_info E) min_py_version of
             Inl e \<Rightarrow> (Inl e, w)
           | Inr True \<Rightarrow>
               (let python_min_version_str = join ''.'' (map str_int min_py_version);
                    no_go = ''You are using Python '' @ python_version E @ ''. Python >=''
                            @ python_min_version_str @ '' is  required.''
                in (Inr False, write_stderr no_go w))
           | Inr False \<Rightarrow> (Inr True, w)))"

subsection \<open>The settings (lines 87-133)\<close>

definition cfg_keys :: "string list" where
  "cfg_keys = py_split ''description keywords author author_email contributors'' '' ''"

definition expected :: "string list" where
  "expected = cfg_keys
     @ py_split ''name user git_branch license status audience language dev_language'' '' ''"

text \<open>
  \<^verbatim>\<open>for i in expected: assert i in cfg, f'Missing expected setting: {i}'\<close>.
  This is the loop with the \<^verbatim>\<open>assert\<close> in force; under \<^verbatim>\<open>-O\<close> the statement is
  left out and the loop does nothing (see \<open>read_settings\<close>).
\<close>

fun assert_expected :: "(string \<rightharpoonup> string) \<Rightarrow> string list \<Rightarrow> error + unit" where
  "assert_expected cfg [] = Inr ()"
| "assert_expected cfg (i # rest) =
     (if cfg i \<noteq> None then assert_expected cfg rest
      else Inl (AssertionError (''Missing expected setting: '' @ i)))"

definition PLATFORMS :: "string list" where
  "PLATFORMS = [''Any'']"

definition EXTRAS :: "(string \<times> string) list" where
  "EXTRAS = [(''canaro'', ''canaro>=1.0.6'')]"

definition EXTENSIONS :: "(string \<times> string list) list" where
  "EXTENSIONS =
     [(''caer.cconvex'', [''caer/cconvex.cpp'']),
      (''caer.cconvolve'', [''caer/cconvolve.cpp'', ''caer/cfilters.cpp'']),
      (''caer.cdistance'', [''caer/cdistance.cpp'']),
      (''caer.cmorph'', [''caer/cmorph.cpp'', ''caer/cfilters.cpp'']),
      (''caer.ndi.cndi'',
         [''caer/ndi/cndimage.c'',
          ''caer/ndi/cndfilters.c'',
          ''caer/ndi/cndfourier.c'',
          ''caer/ndi/cndinterpolation.c'',
          ''caer/ndi/cndmeasure.c'',
          ''caer/ndi/cndmorphology.c'',
          ''caer/ndi/cndsplines.c'',
          ''caer/ndi/cndsupport.c''])]"

text \<open>
  \<^verbatim>\<open>Extension(key, sources=sources, include_dirs=[np.get_include()])\<close>; the extra
  compile arguments of a new extension are the empty list.
\<close>

definition Extension :: "string \<Rightarrow> string list \<Rightarrow> string list \<Rightarrow> extension" where
  "Extension key srcs incl =
     \<lparr>ext_name = key, sources = srcs, include_dirs = incl, extra_compile_args = []\<rparr>"

text \<open>\<^verbatim>\<open>io.open(path, encoding='utf-8').read()\<close> and \<^verbatim>\<open>open(path, 'r')\<close>.\<close>

definition open_read :: "world \<Rightarrow> string \<Rightarrow> error + string" where
  "open_read w path =
     (case files w path of
        None \<Rightarrow> Inl (FileNotFoundError path)
      | Some content \<Rightarrow> Inr content)"

text \<open>
  Lines 87-113: the file parsed, the two sections, the check of the expected settings
  (unless the interpreter leaves assertions out), then the setup variables in the order
  of the file. Nothing is changed on the way.
\<close>

definition read_settings :: "env \<Rightarrow> world \<Rightarrow> error + globals" where
  "read_settings E w =
     thn (config_read E) (\<lambda>config.
     thn (getitem config ''metadata'') (\<lambda>cfg.
     thn (getitem config ''options'') (\<lambda>opt.
     thn (if optimized E then Inr () else assert_expected cfg expected) (\<lambda>_.
     thn (section_getitem E ''metadata'' cfg ''name'') (\<lambda>name.
     thn (section_getitem E ''metadata'' cfg ''author'') (\<lambda>author.
     thn (section_getitem E ''metadata'' cfg ''author_email'') (\<lambda>author_email.
     thn (section_getitem E ''metadata'' cfg ''license'') (\<lambda>license.
     thn (section_getitem E ''metadata'' cfg ''git_url'') (\<lambda>url.
     thn (section_getitem E ''metadata'' cfg ''download_url'') (\<lambda>download_url.
     thn (section_getitem E ''metadata'' cfg ''description'') (\<lambda>description.
     thn (open_read w ''LONG_DESCRIPTION.md'') (\<lambda>long_description.
     thn (section_getitem E ''metadata'' cfg ''keywords'') (\<lambda>keywords.
     thn (section_getitem E ''options'' opt ''pip_requirements'') (\<lambda>pip_requirements.
     thn (section_getitem E ''metadata'' cfg ''classifiers'') (\<lambda>classifiers.
     thn (section_getitem E ''options'' opt ''min_python'') (\<lambda>min_python.
     Inr \<lparr>VERSION = str_int MAJOR @ ''.'' @ str_int MINOR @ ''.'' @ str_int MICRO,
          ISRELEASED = True,
          RUN_CYTHON_BUILD = True,
          NAME = name,
          AUTHOR = author,
          AUTHOR_EMAIL = author_email,
          AUTHOR_LONG = author @ '' <'' @ author_email @ ''>'',
          LICENSE = license,
          URL = url,
          DOWNLOAD_URL = download_url,
          PACKAGES = found_packages E,
          DESCRIPTION = description,
          LONG_DESCRIPTION = universal_newlines long_description,
          KEYWORDS = py_split keywords '', '',
          REQUIREMENTS = py_split pip_requirements '', '',
          CLASSIFIERS = drop 1 (py_split classifiers [LF]),
          PYTHON_REQUIRES = ''>='' @ min_python,
          EXT_MODULES =
            map (\<lambda>(key, srcs). Extension key srcs [np_include E]) EXTENSIONS\<rparr>
     ))))))))))))))))"

text \<open>Line 133 constructs the extensions: one call of \<^verbatim>\<open>Extension\<close> for each.\<close>

definition module_settings :: "env \<Rightarrow> world \<Rightarrow> (error + globals) \<times> world" where
  "module_settings E w =
     (case read_settings E w of
        Inl e \<Rightarrow> (Inl e, w)
      | Inr g \<Rightarrow> (Inr g, w\<lparr>events := events w @ map ExtensionBuilt (EXT_MODULES g)\<rparr>))"

subsection \<open>The meta module (lines 146-183)\<close>

definition META_PY_TEXT :: string where
  "META_PY_TEXT =
     [LF] @ ''# This file is automatically generated during the generation of setup.py''
     @ [LF] @ ''# Copyright 2020, Caer''
     @ [LF] @ ''author = '' @ [SQ] @ ''%(author)s'' @ [SQ]
     @ [LF] @ ''version = '' @ [SQ] @ ''%(version)s'' @ [SQ]
     @ [LF] @ ''full_version = '' @ [SQ] @ ''%(full_version)s'' @ [SQ]
     @ [LF] @ ''release = %(isrelease)s''
     @ [LF] @ ''contributors = %(contributors)s''
     @ [LF]"

text \<open>The loop of \<^verbatim>\<open>get_contributors_list\<close>: each line stripped and appended.\<close>

fun contr_loop :: "string list \<Rightarrow> string list \<Rightarrow> string list" where
  "contr_loop contr [] = contr"
| "contr_loop contr (line # rest) = contr_loop (contr @ [strip line]) rest"

definition get_contributors_list :: "world \<Rightarrow> string \<Rightarrow> error + string list" where
  "get_contributors_list w filename =
     (case open_read w filename of
        Inl e \<Rightarrow> Inl e
      | Inr content \<Rightarrow> Inr (contr_loop [] (file_lines content)))"

text \<open>
  \<^verbatim>\<open>write_meta\<close>: the message, the contributors read from \<^verbatim>\<open>CONTRIBUTORS\<close>, then the
  output opened for writing, which empties it at once; the text is rendered and
  written, and the file is closed whether or not that raised.
\<close>

definition write_meta :: "globals \<Rightarrow> env \<Rightarrow> string \<Rightarrow> world \<Rightarrow> (error + unit) \<times> world" where
  "write_meta g E filename w =
     (let w1 = print ''[INFO] Writing _meta.py'' w;
          TEXT = META_PY_TEXT;
          FULL_VERSION = VERSION g
      in case get_contributors_list w1 ''CONTRIBUTORS'' of
           Inl e \<Rightarrow> (Inl e, w1)
         | Inr CONTRIBUTORS \<Rightarrow>
             if \<not> writable E filename then (Inl (OSError filename), w1)
             else
               (let w2 = w1\<lparr>files := (files w1)(filename \<mapsto> [])\<rparr> in
                case py_format TEXT
                       [''author'' \<mapsto> Str (AUTHOR_LONG g),
                        ''version'' \<mapsto> Str (VERSION g),
                        ''full_version'' \<mapsto> Str FULL_VERSION,
                        ''isrelease'' \<mapsto> Str (str_bool (ISRELEASED g)),
                        ''contributors'' \<mapsto> StrList CONTRIBUTORS] of
                  Inl e \<Rightarrow> (Inl e, w2)
                | Inr text \<Rightarrow> (Inr (), w2\<lparr>files := (files w2)(filename \<mapsto> text)\<rparr>)))"

definition get_docs_url :: "globals \<Rightarrow> string" where
  "get_docs_url g = URL g @ ''/blob/master/docs/README.md''"

subsection \<open>The generator (lines 197-207)\<close>

text \<open>
  \<^verbatim>\<open>generate_cython\<close>: the message, the generator run as a subprocess, and a
  \<open>RuntimeError\<close> when its exit status is not zero.
\<close>

definition generate_cython :: "env \<Rightarrow> world \<Rightarrow> (error + unit) \<times> world" where
  "generate_cython E w =
     (let w1 = print ''[INFO] Cythonizing sources'' w;
          (p, fs) = cythonize E (files w1);
          w2 = w1\<lparr>files := fs, events := events w1 @ [Cythonized p]\<rparr>
      in if p \<noteq> 0 then (Inl (RuntimeError ''[ERROR] Running cythonize failed!''), w2)
         else (Inr (), w2))"

subsection \<open>The compiler options (lines 210-225)\<close>

definition copt :: "(string \<times> string list) list" where
  "copt = [(''msvc'', [''/EHsc'']), (''intelw'', [''/EHsc''])]"

text \<open>
  The command \<^verbatim>\<open>build_ext\<close> as the script sees it: the type of its compiler and its
  extensions. \<^verbatim>\<open>build_extensions\<close> sets the arguments, then calls the method it
  overrides, here \<open>super\<close>.
\<close>

record build_ext =
  compiler_type :: string
  extensions :: "extension list"

fun set_args :: "string list \<Rightarrow> extension list \<Rightarrow> extension list" where
  "set_args args [] = []"
| "set_args args (e # es) = e\<lparr>extra_compile_args := args\<rparr> # set_args args es"

definition build_extensions :: "(build_ext \<Rightarrow> 'r) \<Rightarrow> build_ext \<Rightarrow> 'r" where
  "build_extensions super self =
     (let c = compiler_type self in
      case map_of copt c of
        Some args \<Rightarrow> super (self\<lparr>extensions := set_args args (extensions self)\<rparr>)
      | None \<Rightarrow> super self)"

definition CMDCLASS :: "(string \<times> string) list" where
  "CMDCLASS = [(''build_ext'', ''build_extension_class'')]"

subsection \<open>The main program (lines 228-284)\<close>

text \<open>\<^verbatim>\<open>setup(**metadata)\<close>: the call is recorded, the backend does the rest.\<close>

definition setup_call :: "env \<Rightarrow> metadata \<Rightarrow> world \<Rightarrow> (error + unit) \<times> world" where
  "setup_call E md w =
     (let (r, fs) = backend E md (files w);
          w1 = w\<lparr>files := fs, events := events w @ [SetupCalled md]\<rparr>
      in case r of None \<Rightarrow> (Inr (), w1) | Some e \<Rightarrow> (Inl e, w1))"

definition setup_package :: "globals \<Rightarrow> env \<Rightarrow> world \<Rightarrow> (error + unit) \<times> world" where
  "setup_package g E w =
     (case write_meta g E ''caer/_meta.py'' w of
        (Inl e, w1) \<Rightarrow> (Inl e, w1)
      | (Inr _, w1) \<Rightarrow>
          (let md = \<lparr>md_name = NAME g,
                     md_version = VERSION g,
                     md_author = AUTHOR g,
                     md_author_email = AUTHOR_EMAIL g,
                     md_maintainer = AUTHOR g,
                     md_description = DESCRIPTION g,
                     md_long_description = LONG_DESCRIPTION g,
                     md_long_description_content_type = ''text/markdown'',
                     md_url = URL g,
                     md_download_url = DOWNLOAD_URL g,
                     md_project_urls =
                       [(''Bug Tracker'', URL g @ ''/issues''),
                        (''Documentation'', get_docs_url g),
                        (''Source Code'', URL g)],
                     md_packages = PACKAGES g,
                     md_ext_modules = EXT_MODULES g,
                     md_license = LICENSE g,
                     md_platforms = PLATFORMS,
                     md_install_requires = REQUIREMENTS g,
                     md_extras_require = EXTRAS,
                     md_python_requires = PYTHON_REQUIRES g,
                     md_cmdclass = CMDCLASS,
                     md_include_package_data = True,
                     md_zip_safe = False,
                     md_keywords = KEYWORDS g,
                     md_classifiers = CLASSIFIERS g\<rparr>;
               run_build = RUN_CYTHON_BUILD g
           in case (if run_build then generate_cython E w1 else (Inr (), w1)) of
                (Inl e, w2) \<Rightarrow> (Inl e, w2)
              | (Inr _, w2) \<Rightarrow> setup_call E md w2))"

text \<open>
  The script run as the main program: compiled, the gate, the imports, the settings,
  \<^verbatim>\<open>setup_package()\<close>.
\<close>

definition run_script :: "env \<Rightarrow> world \<Rightarrow> (error + unit) \<times> world" where
  "run_script E w =
     (if \<not> accepts_source (version_info E) then (Inl SyntaxError, w)
      else
        case is_right_py_version E min_version w of
          (Inl e, w1) \<Rightarrow> (Inl e, w1)
        | (Inr False, w1) \<Rightarrow> (Inl (SystemExit (- 1)), w1)
        | (Inr True, w1) \<Rightarrow>
            if \<not> imports_ok E then (Inl ImportError, w1)
            else
              (case module_settings E w1 of
                 (Inl e, w2) \<Rightarrow> (Inl e, w2)
               | (Inr g, w2) \<Rightarrow> setup_package g E w2))"

subsection \<open>Reading a run\<close>

text \<open>The extensions constructed and the calls of \<^verbatim>\<open>setup()\<close> among the calls made.\<close>

fun built :: "event list \<Rightarrow> extension list" where
  "built [] = []"
| "built (ExtensionBuilt e # es) = e # built es"
| "built (Cythonized p # es) = built es"
| "built (SetupCalled md # es) = built es"

fun delegated :: "event list \<Rightarrow> metadata list" where
  "delegated [] = []"
| "delegated (SetupCalled md # es) = md # delegated es"
| "delegated (ExtensionBuilt e # es) = delegated es"
| "delegated (Cythonized p # es) = delegated es"

text \<open>
  A small project to run the script on: an interpreter 3.8.10 with assertions in
  force, a \<^verbatim>\<open>setup.cfg\<close> that parses, with every setting the script reads and no
  interpolation error, the two files it opens, a generator that exits with
  a given status and a backend that succeeds.
\<close>

definition demo_metadata :: "string \<rightharpoonup> string" where
  "demo_metadata =
     [''description'' \<mapsto> ''Computer Vision'',
      ''keywords'' \<mapsto> ''vision, video'',
      ''author'' \<mapsto> ''Jason'',
      ''author_email'' \<mapsto> ''j@caer.org'',
      ''contributors'' \<mapsto> ''Jason'',
      ''name'' \<mapsto> ''caer'',
      ''user'' \<mapsto> ''jasmcaus'',
      ''git_branch'' \<mapsto> ''master'',
      ''license'' \<mapsto> ''MIT'',
      ''status'' \<mapsto> ''4'',
      ''audience'' \<mapsto> ''Developers'',
      ''language'' \<mapsto> ''English'',
      ''dev_language'' \<mapsto> ''Python'',
      ''git_url'' \<mapsto> ''https://caer.org'',
      ''download_url'' \<mapsto> ''https://caer.org/dl'',
      ''classifiers'' \<mapsto> [LF] @ ''Topic :: A'' @ [LF] @ ''Topic :: B'']"

definition demo_options :: "string \<rightharpoonup> string" where
  "demo_options = [''pip_requirements'' \<mapsto> ''numpy, opencv'', ''min_python'' \<mapsto> ''3.6.1'']"

definition demo_generator :: "int \<Rightarrow> (string \<rightharpoonup> string) \<Rightarrow> int \<times> (string \<rightharpoonup> string)" where
  "demo_generator p fs = (p, fs)"

definition demo_backend :: "metadata \<Rightarrow> (string \<rightharpoonup> string) \<Rightarrow> error option \<times> (string \<rightharpoonup> string)" where
  "demo_backend md fs = (None, fs)"

definition demo_writable :: "string \<Rightarrow> bool" where
  "demo_writable path = True"

text \<open>
  No lookup of the small project raises. \<open>demo_bad_description\<close> is for the variant
  of it that has \<^verbatim>\<open>description = 100% fast\<close> in the section \<^verbatim>\<open>metadata\<close>: the
  lookup of that option raises \<^verbatim>\<open>InterpolationSyntaxError\<close>.
\<close>

definition demo_lookup_error :: "string \<Rightarrow> string \<Rightarrow> error option" where
  "demo_lookup_error section k = None"

definition demo_bad_description :: "string \<Rightarrow> string \<Rightarrow> error option" where
  "demo_bad_description section k =
     (if section = ''metadata'' \<and> k = ''description''
      then Some (ConfigParserError ''InterpolationSyntaxError'') else None)"

definition demo_env :: "(string \<rightharpoonup> string) \<Rightarrow> int \<Rightarrow> env" where
  "demo_env cfg p =
     \<lparr>version_info = [PInt 3, PInt 8, PInt 10, PStr ''final'', PInt 0],
      python_version = ''3.8.10'',
      optimized = False,
      imports_ok = True,
      read_error = None,
      config = [''metadata'' \<mapsto> cfg, ''options'' \<mapsto> demo_options],
      lookup_error = demo_lookup_error,
      found_packages = [''caer''],
      np_include = ''numpy/core/include'',
      writable = demo_writable,
      cythonize = demo_generator p,
      backend = demo_backend\<rparr>"

definition demo_files :: "string \<rightharpoonup> string" where
  "demo_files =
     [''LONG_DESCRIPTION.md'' \<mapsto> ''Caer'',
      ''CONTRIBUTORS'' \<mapsto> ''Alice'' @ [LF] @ ''  '' @ [LF] @ ''Bob'' @ [LF]]"

definition demo_world :: world where
  "demo_world = \<lparr>files = demo_files, stdout = [], stderr = [], events = []\<rparr>"

section \<open>Properties\<close>

subsection \<open>Sequencing, lookups and the gate\<close>

lemma thn_Inr: "thn r f = Inr y \<longleftrightarrow> (\<exists>x. r = Inr x \<and> f x = Inr y)"
  by (cases r) (simp_all add: thn_def)

lemma thn_Inr_step: "r = Inr x \<Longrightarrow> thn r f = f x"
  by (simp add: thn_def)

lemma thn_Inl_step: "r = Inl e \<Longrightarrow> thn r f = Inl e"
  by (simp add: thn_def)

lemma getitem_Inr: "getitem d k = Inr v \<longleftrightarrow> d k = Some v"
  by (simp add: getitem_def split: option.splits)

lemma getitem_Some: "d k = Some v \<Longrightarrow> getitem d k = Inr v"
  by (simp add: getitem_def)

lemma getitem_None: "d k = None \<Longrightarrow> getitem d k = Inl (KeyError k)"
  by (simp add: getitem_def)

lemma expected_keys:
  "expected = [''description'', ''keywords'', ''author'', ''author_email'', ''contributors'',
     ''name'', ''user'', ''git_branch'', ''license'', ''status'', ''audience'', ''language'',
     ''dev_language'']"
  by (simp add: expected_def cfg_keys_def py_split_def)

lemma assert_expected_first_missing:
  "assert_expected cfg ks =
     (case filter (\<lambda>k. cfg k = None) ks of
        [] \<Rightarrow> Inr ()
      | k # _ \<Rightarrow> Inl (AssertionError (''Missing expected setting: '' @ k)))"
  by (induction ks) auto

lemma filter_only_missing:
  "k \<in> set ks \<Longrightarrow> cfg k = None \<Longrightarrow> \<forall>j \<in> set ks. j \<noteq> k \<longrightarrow> cfg j \<noteq> None \<Longrightarrow>
   \<exists>rest. filter (\<lambda>j. cfg j = None) ks = k # rest"
proof (induction ks)
  case Nil then show ?case by simp
next
  case (Cons a ks)
  show ?case
  proof (cases "a = k")
    case True then show ?thesis using Cons.prems by simp
  next
    case False
    then have "cfg a \<noteq> None" "k \<in> set ks" using Cons.prems by auto
    then show ?thesis using Cons by auto
  qed
qed

lemma tuple_lt_Nil: "tuple_lt info [] = Inr False"
  by (cases info) simp_all

lemma tuple_lt_prefix:
  "tuple_lt info (bs @ cs) = Inr False \<Longrightarrow> tuple_lt info bs = Inr False"
proof (induction info bs rule: tuple_lt.induct)
  case (3 a as)
  then show ?case by simp
next
  case (4 a as b bs)
  then show ?case by (auto split: if_splits)
qed (auto simp: tuple_lt_Nil)

lemma tuple_lt_min_3: "tuple_lt info min_version = Inr False \<Longrightarrow> tuple_lt info [3] = Inr False"
  using tuple_lt_prefix [of info "[3]" "[6, 1]"] by (simp add: min_version_def)

lemma tuple_lt_min_36: "tuple_lt info min_version = Inr False \<Longrightarrow> accepts_source info"
  using tuple_lt_prefix [of info "[3, 6]" "[1]"] by (simp add: min_version_def accepts_source_def)

lemma gate_passes:
  "tuple_lt (version_info E) min_version = Inr False \<Longrightarrow>
   is_right_py_version E min_version w = (Inr True, w)"
  by (simp add: is_right_py_version_def tuple_lt_min_3)

lemma run_script_past_gate:
  "tuple_lt (version_info E) min_version = Inr False \<Longrightarrow> imports_ok E \<Longrightarrow>
   run_script E w =
     (case module_settings E w of
        (Inl e, w2) \<Rightarrow> (Inl e, w2)
      | (Inr g, w2) \<Rightarrow> setup_package g E w2)"
  by (simp add: run_script_def gate_passes tuple_lt_min_36)

lemma config_read_Inr: "config_read E = Inr c \<longleftrightarrow> read_error E = None \<and> c = config E"
  by (auto simp: config_read_def split: option.splits)

lemma section_getitem_Inr:
  "section_getitem E sect cfg k = Inr v \<longleftrightarrow> cfg k = Some v \<and> lookup_error E sect k = None"
  by (auto simp: section_getitem_def split: option.splits)

lemma section_getitem_Some:
  "cfg k = Some v \<Longrightarrow> lookup_error E sect k = None \<Longrightarrow> section_getitem E sect cfg k = Inr v"
  by (simp add: section_getitem_def)

lemma read_settings_missing:
  assumes "read_error E = None" and "\<not> optimized E"
    and "config E ''metadata'' = Some cfg" and "config E ''options'' = Some opt"
    and "filter (\<lambda>k. cfg k = None) expected = k # rest"
  shows "read_settings E w = Inl (AssertionError (''Missing expected setting: '' @ k))"
  using assms
  by (simp add: read_settings_def config_read_def getitem_Some thn_def
        assert_expected_first_missing)

lemma read_settings_ok_iff:
  assumes "read_error E = None"
    and "config E ''metadata'' = Some cfg" and "config E ''options'' = Some opt"
    and "filter (\<lambda>k. cfg k = None) expected = []"
  shows "(\<exists>g. read_settings E w = Inr g) \<longleftrightarrow>
     (cfg ''git_url'' \<noteq> None \<and> cfg ''download_url'' \<noteq> None \<and> cfg ''classifiers'' \<noteq> None
      \<and> opt ''pip_requirements'' \<noteq> None \<and> opt ''min_python'' \<noteq> None
      \<and> files w ''LONG_DESCRIPTION.md'' \<noteq> None
      \<and> list_all (\<lambda>k. lookup_error E ''metadata'' k = None)
            [''name'', ''author'', ''author_email'', ''license'', ''git_url'',
             ''download_url'', ''description'', ''keywords'', ''classifiers'']
      \<and> list_all (\<lambda>k. lookup_error E ''options'' k = None)
            [''pip_requirements'', ''min_python''])"
proof -
  have all: "\<forall>k \<in> set expected. cfg k \<noteq> None"
    using assms(4) by (simp add: filter_empty_conv)
  have pres: "cfg ''name'' \<noteq> None" "cfg ''author'' \<noteq> None" "cfg ''author_email'' \<noteq> None"
    "cfg ''license'' \<noteq> None" "cfg ''description'' \<noteq> None" "cfg ''keywords'' \<noteq> None"
    using all by (simp_all add: expected_keys)
  have chk: "(if optimized E then Inr () else assert_expected cfg expected) = Inr ()"
    using assms(4) by (simp add: assert_expected_first_missing)
  show ?thesis
    using assms(1-3) pres
    by (auto simp: read_settings_def thn_Inr getitem_Inr open_read_def config_read_Inr chk
          section_getitem_Inr split: option.splits)
qed

subsection \<open>The expected settings (C3)\<close>

text \<open>
  C3, as stated, fails in three ways, each shown here on the small project. First,
  a configuration with the thirteen expected settings need not load: the script also
  reads \<^verbatim>\<open>git_url\<close>, \<^verbatim>\<open>download_url\<close> and \<^verbatim>\<open>classifiers\<close> from the section
  \<^verbatim>\<open>metadata\<close> (lines 105, 106, 112), which the check of line 94 does not cover; with
  every expected setting present and \<^verbatim>\<open>git_url\<close> not, the check passes and line 105
  raises \<^verbatim>\<open>KeyError: 'git_url'\<close>. Second, a setting that is present can still fail to
  load: with every setting present and \<^verbatim>\<open>description = 100% fast\<close>, the check passes
  and line 108 raises \<^verbatim>\<open>InterpolationSyntaxError\<close>. Third, a missing expected setting
  need not fail: under \<^verbatim>\<open>-O\<close> the \<^verbatim>\<open>assert\<close> of line 94 is left out, and without
  \<^verbatim>\<open>user\<close>, which no later line reads, the variables are all defined.
\<close>

theorem thirteen_keys_not_enough:
  "assert_expected (demo_metadata(''git_url'' := None)) expected = Inr ()
   \<and> read_settings (demo_env (demo_metadata(''git_url'' := None)) 0) demo_world
       = Inl (KeyError ''git_url'')
   \<and> assert_expected demo_metadata expected = Inr ()
   \<and> read_settings ((demo_env demo_metadata 0)\<lparr>lookup_error := demo_bad_description\<rparr>) demo_world
       = Inl (ConfigParserError ''InterpolationSyntaxError'')
   \<and> (demo_metadata(''user'' := None)) ''user'' = None
   \<and> map_sum id NAME
        (read_settings ((demo_env (demo_metadata(''user'' := None)) 0)\<lparr>optimized := True\<rparr>)
           demo_world)
       = Inr ''caer''"
proof -
  have a: "assert_expected (demo_metadata(''git_url'' := None)) expected = Inr ()"
    by (simp add: expected_keys demo_metadata_def)
  have b: "read_settings (demo_env (demo_metadata(''git_url'' := None)) 0) demo_world
       = Inl (KeyError ''git_url'')"
    by (simp add: read_settings_def config_read_def section_getitem_def demo_env_def
          demo_metadata_def demo_options_def demo_lookup_error_def getitem_def thn_def
          expected_keys demo_world_def demo_files_def open_read_def)
  have c: "assert_expected demo_metadata expected = Inr ()"
    by (simp add: expected_keys demo_metadata_def)
  have d: "read_settings ((demo_env demo_metadata 0)\<lparr>lookup_error := demo_bad_description\<rparr>)
             demo_world
       = Inl (ConfigParserError ''InterpolationSyntaxError'')"
    by (simp add: read_settings_def config_read_def section_getitem_def demo_env_def
          demo_metadata_def demo_options_def demo_bad_description_def getitem_def thn_def
          expected_keys demo_world_def demo_files_def open_read_def)
  have e: "(demo_metadata(''user'' := None)) ''user'' = None" by simp
  have f: "map_sum id NAME
        (read_settings ((demo_env (demo_metadata(''user'' := None)) 0)\<lparr>optimized := True\<rparr>)
           demo_world)
       = Inr ''caer''"
    by (simp add: read_settings_def config_read_def section_getitem_def demo_env_def
          demo_metadata_def demo_options_def demo_lookup_error_def getitem_def thn_def
          demo_world_def demo_files_def open_read_def)
  show ?thesis using a b c d e f by blast
qed

text \<open>
  C3, amended. Let the interpreter pass the gate, the imports succeed, \<^verbatim>\<open>setup.cfg\<close>
  parse and have the sections \<^verbatim>\<open>metadata\<close> and \<^verbatim>\<open>options\<close>. With assertions in force
  (no \<^verbatim>\<open>-O\<close>): if exactly one of the thirteen expected settings is missing, the script
  ends with the \<open>AssertionError\<close> that names that setting, and nothing has been changed:
  the world is the one it started from (no file written, nothing printed, no call
  made); if several are missing, the first of them in the order of the list is named.
  If none is missing, the check passes, and the setup variables are all defined
  exactly when, in addition, \<^verbatim>\<open>git_url\<close>, \<^verbatim>\<open>download_url\<close> and \<^verbatim>\<open>classifiers\<close> are
  in \<^verbatim>\<open>metadata\<close>, \<^verbatim>\<open>pip_requirements\<close> and \<^verbatim>\<open>min_python\<close> are in \<^verbatim>\<open>options\<close>,
  \<^verbatim>\<open>LONG_DESCRIPTION.md\<close> can be read, and none of the eleven lookups of lines 99-113
  raises an interpolation error.
\<close>

theorem missing_setting_is_named:
  assumes "tuple_lt (version_info E) min_version = Inr False" and "imports_ok E"
    and "read_error E = None"
    and "config E ''metadata'' = Some cfg" and "config E ''options'' = Some opt"
  shows "(\<not> optimized E \<longrightarrow>
            (\<forall>k \<in> set expected.
               cfg k = None \<and> (\<forall>j \<in> set expected. j \<noteq> k \<longrightarrow> cfg j \<noteq> None) \<longrightarrow>
               run_script E w = (Inl (AssertionError (''Missing expected setting: '' @ k)), w)))
       \<and> (\<not> optimized E \<longrightarrow>
            (\<forall>k rest.
               filter (\<lambda>j. cfg j = None) expected = k # rest \<longrightarrow>
               run_script E w = (Inl (AssertionError (''Missing expected setting: '' @ k)), w)))
       \<and> (filter (\<lambda>j. cfg j = None) expected = [] \<longrightarrow>
            assert_expected cfg expected = Inr ()
            \<and> ((\<exists>g. read_settings E w = Inr g) \<longleftrightarrow>
                 cfg ''git_url'' \<noteq> None \<and> cfg ''download_url'' \<noteq> None
                 \<and> cfg ''classifiers'' \<noteq> None \<and> opt ''pip_requirements'' \<noteq> None
                 \<and> opt ''min_python'' \<noteq> None \<and> files w ''LONG_DESCRIPTION.md'' \<noteq> None
                 \<and> list_all (\<lambda>k. lookup_error E ''metadata'' k = None)
                      [''name'', ''author'', ''author_email'', ''license'', ''git_url'',
                       ''download_url'', ''description'', ''keywords'', ''classifiers'']
                 \<and> list_all (\<lambda>k. lookup_error E ''options'' k = None)
                      [''pip_requirements'', ''min_python'']))"
proof -
  have first: "run_script E w = (Inl (AssertionError (''Missing expected setting: '' @ k)), w)"
    if "\<not> optimized E" "filter (\<lambda>j. cfg j = None) expected = k # rest" for k rest
    using read_settings_missing [OF assms(3) that(1) assms(4,5) that(2)]
    by (simp add: run_script_past_gate [OF assms(1,2)] module_settings_def)
  have one: "run_script E w = (Inl (AssertionError (''Missing expected setting: '' @ k)), w)"
    if "\<not> optimized E" "k \<in> set expected" "cfg k = None"
      "\<forall>j \<in> set expected. j \<noteq> k \<longrightarrow> cfg j \<noteq> None" for k
    using filter_only_missing [OF that(2,3,4)] first [OF that(1)] by blast
  have ok: "assert_expected cfg expected = Inr ()"
    if "filter (\<lambda>j. cfg j = None) expected = []"
    using that by (simp add: assert_expected_first_missing)
  show ?thesis
    using first one ok read_settings_ok_iff [OF assms(3,4,5)] by blast
qed

text \<open>
  The amended C3 on the small project: without \<^verbatim>\<open>license\<close> the run ends naming it
  and leaves the world as it was; with every setting the variables are defined.
\<close>

theorem missing_setting_is_named_witness:
  "tuple_lt (version_info (demo_env (demo_metadata(''license'' := None)) 0)) min_version = Inr False
   \<and> imports_ok (demo_env (demo_metadata(''license'' := None)) 0)
   \<and> read_error (demo_env (demo_metadata(''license'' := None)) 0) = None
   \<and> \<not> optimized (demo_env (demo_metadata(''license'' := None)) 0)
   \<and> config (demo_env (demo_metadata(''license'' := None)) 0) ''metadata''
       = Some (demo_metadata(''license'' := None))
   \<and> config (demo_env (demo_metadata(''license'' := None)) 0) ''options'' = Some demo_options
   \<and> filter (\<lambda>j. (demo_metadata(''license'' := None)) j = None) expected = [''license'']
   \<and> run_script (demo_env (demo_metadata(''license'' := None)) 0) demo_world
       = (Inl (AssertionError ''Missing expected setting: license''), demo_world)
   \<and> filter (\<lambda>j. demo_metadata j = None) expected = []
   \<and> (\<exists>g. read_settings (demo_env demo_metadata 0) demo_world = Inr g)"
proof -
  let ?cfg = "demo_metadata(''license'' := None)"
  let ?E = "demo_env ?cfg 0"
  let ?F = "demo_env demo_metadata 0"
  have h1: "tuple_lt (version_info ?E) min_version = Inr False"
    by (simp add: demo_env_def min_version_def)
  have h2: "imports_ok ?E" by (simp add: demo_env_def)
  have h3: "read_error ?E = None" by (simp add: demo_env_def)
  have h4: "config ?E ''metadata'' = Some ?cfg" by (simp add: demo_env_def)
  have h5: "config ?E ''options'' = Some demo_options" by (simp add: demo_env_def)
  have h6: "\<not> optimized ?E" by (simp add: demo_env_def)
  have f: "filter (\<lambda>j. ?cfg j = None) expected = [''license'']"
    by (simp add: expected_keys demo_metadata_def)
  have g1: "tuple_lt (version_info ?F) min_version = Inr False"
    by (simp add: demo_env_def min_version_def)
  have g2: "imports_ok ?F" by (simp add: demo_env_def)
  have g3: "read_error ?F = None" by (simp add: demo_env_def)
  have g4: "config ?F ''metadata'' = Some demo_metadata" by (simp add: demo_env_def)
  have g5: "config ?F ''options'' = Some demo_options" by (simp add: demo_env_def)
  have f0: "filter (\<lambda>j. demo_metadata j = None) expected = []"
    by (simp add: expected_keys demo_metadata_def)
  have r: "run_script ?E demo_world
       = (Inl (AssertionError (''Missing expected setting: '' @ ''license'')), demo_world)"
    by (rule missing_setting_is_named [OF h1 h2 h3 h4 h5, of demo_world,
          THEN conjunct2, THEN conjunct1, rule_format, OF h6 f])
  have present: "demo_metadata ''git_url'' \<noteq> None" "demo_metadata ''download_url'' \<noteq> None"
    "demo_metadata ''classifiers'' \<noteq> None" "demo_options ''pip_requirements'' \<noteq> None"
    "demo_options ''min_python'' \<noteq> None" "files demo_world ''LONG_DESCRIPTION.md'' \<noteq> None"
    by (simp_all add: demo_metadata_def demo_options_def demo_world_def demo_files_def)
  have noerr: "list_all (\<lambda>k. lookup_error ?F ''metadata'' k = None)
                      [''name'', ''author'', ''author_email'', ''license'', ''git_url'',
                       ''download_url'', ''description'', ''keywords'', ''classifiers'']"
    "list_all (\<lambda>k. lookup_error ?F ''options'' k = None) [''pip_requirements'', ''min_python'']"
    by (simp_all add: demo_env_def demo_lookup_error_def)
  have iff: "(\<exists>g. read_settings ?F demo_world = Inr g) \<longleftrightarrow>
       demo_metadata ''git_url'' \<noteq> None \<and> demo_metadata ''download_url'' \<noteq> None
       \<and> demo_metadata ''classifiers'' \<noteq> None \<and> demo_options ''pip_requirements'' \<noteq> None
       \<and> demo_options ''min_python'' \<noteq> None \<and> files demo_world ''LONG_DESCRIPTION.md'' \<noteq> None
       \<and> list_all (\<lambda>k. lookup_error ?F ''metadata'' k = None)
                      [''name'', ''author'', ''author_email'', ''license'', ''git_url'',
                       ''download_url'', ''description'', ''keywords'', ''classifiers'']
       \<and> list_all (\<lambda>k. lookup_error ?F ''options'' k = None)
                      [''pip_requirements'', ''min_python'']"
    by (rule missing_setting_is_named [OF g1 g2 g3 g4 g5, of demo_world,
          THEN conjunct2, THEN conjunct2, rule_format, OF f0, THEN conjunct2])
  have s: "\<exists>g. read_settings ?F demo_world = Inr g"
    using iff present noerr by blast
  from r have r': "run_script ?E demo_world
       = (Inl (AssertionError ''Missing expected setting: license''), demo_world)"
    by simp
  from h1 h2 h3 h4 h5 h6 f r' f0 s show ?thesis by blast
qed

subsection \<open>The generator (C2)\<close>

lemma files_print: "files (print s w) = files w"
  by (simp add: print_def)

lemma events_print: "events (print s w) = events w"
  by (simp add: print_def)

lemma generate_cython_result:
  "generate_cython E w =
     (if fst (cythonize E (files w)) = 0 then Inr ()
      else Inl (RuntimeError ''[ERROR] Running cythonize failed!''),
      (print ''[INFO] Cythonizing sources'' w)
        \<lparr>files := snd (cythonize E (files w)),
          events := events w @ [Cythonized (fst (cythonize E (files w)))]\<rparr>)"
  by (simp add: generate_cython_def Let_def files_print events_print split: prod.splits)

text \<open>
  C2, as stated, fails where it says that the error carries the exit code of the
  process: line 207 raises \<^verbatim>\<open>RuntimeError('[ERROR] Running cythonize failed!')\<close>, the
  same value whatever the status was. Here the generator exits with 1 and with 2, and
  the two errors are equal.
\<close>

theorem exit_code_not_carried:
  "fst (generate_cython (demo_env demo_metadata 1) demo_world)
     = Inl (RuntimeError ''[ERROR] Running cythonize failed!'')
   \<and> fst (generate_cython (demo_env demo_metadata 2) demo_world)
     = Inl (RuntimeError ''[ERROR] Running cythonize failed!'')"
  by (simp add: generate_cython_result demo_env_def demo_generator_def)

text \<open>
  C2, amended. \<^verbatim>\<open>generate_cython\<close> succeeds exactly when the exit status of the
  subprocess is zero; every other status gives the one \<open>RuntimeError\<close> with the fixed
  message, which does not carry the status. Nothing but the status decides: the
  function prints its own message, records the call, and reads no output of the
  process.
\<close>

theorem generate_cython_status:
  "fst (generate_cython E w) =
     (if fst (cythonize E (files w)) = 0 then Inr ()
      else Inl (RuntimeError ''[ERROR] Running cythonize failed!''))
   \<and> events (snd (generate_cython E w))
       = events w @ [Cythonized (fst (cythonize E (files w)))]
   \<and> stdout (snd (generate_cython E w)) = stdout w @ [''[INFO] Cythonizing sources'']
   \<and> stderr (snd (generate_cython E w)) = stderr w"
  by (simp add: generate_cython_result print_def)

subsection \<open>The contributors (C4)\<close>

lemma contr_loop_map: "contr_loop contr ls = contr @ map strip ls"
  by (induction ls arbitrary: contr) auto

lemma lines_from_concat: "concat (lines_from cur s) = cur @ s"
  by (induction s arbitrary: cur) auto

lemma rev_dropWhile_takeWhile:
  "rev (dropWhile P (rev xs)) @ rev (takeWhile P (rev xs)) = xs"
proof -
  have "rev (dropWhile P (rev xs)) @ rev (takeWhile P (rev xs))
      = rev (takeWhile P (rev xs) @ dropWhile P (rev xs))"
    by (simp only: rev_append)
  also have "\<dots> = rev (rev xs)" by (simp only: takeWhile_dropWhile_id)
  finally show ?thesis by simp
qed

lemma strip_parts:
  "\<exists>pre suf. s = pre @ strip s @ suf \<and> list_all isspace pre \<and> list_all isspace suf"
proof -
  let ?l = "dropWhile isspace s"
  let ?pre = "takeWhile isspace s"
  let ?suf = "rev (takeWhile isspace (rev ?l))"
  have l: "?l = strip s @ ?suf"
    by (simp add: strip_def rstrip_def lstrip_def rev_dropWhile_takeWhile)
  have "s = ?pre @ ?l" by simp
  then have "s = ?pre @ strip s @ ?suf" using l by simp
  moreover have "list_all isspace ?pre"
    by (simp add: list_all_iff) (meson set_takeWhileD)
  moreover have "list_all isspace ?suf"
    by (simp add: list_all_iff) (meson set_takeWhileD)
  ultimately show ?thesis by blast
qed

lemma strip_ends: "strip s = [] \<or> (\<not> isspace (hd (strip s)) \<and> \<not> isspace (last (strip s)))"
proof (cases "strip s = []")
  case True
  then show ?thesis by simp
next
  case False
  let ?l = "dropWhile isspace s"
  let ?d = "dropWhile isspace (rev ?l)"
  have st: "strip s = rev ?d" by (simp add: strip_def rstrip_def lstrip_def)
  have ne: "?d \<noteq> []" using False st by simp
  have "\<not> isspace (hd ?d)" using ne by (simp add: hd_dropWhile)
  then have last: "\<not> isspace (last (strip s))" using ne st by (simp add: last_rev)
  have l: "?l = strip s @ rev (takeWhile isspace (rev ?l))"
    using st by (simp add: rev_dropWhile_takeWhile)
  have lne: "?l \<noteq> []" by (metis l False append_is_Nil_conv)
  have "hd ?l = hd (strip s)" using l False by (metis hd_append2)
  moreover have "\<not> isspace (hd ?l)" using lne by (simp add: hd_dropWhile)
  ultimately show ?thesis using last by simp
qed

text \<open>
  C4. Whatever the file holds, \<^verbatim>\<open>get_contributors_list\<close> returns one string for each
  line of it, in the order of the file: each is its line with white space removed at
  both ends (the line is white space, the string, white space; the string is empty or
  begins and ends with a character that is not white space). No line is left out, so a
  blank line gives the empty string: the lines \<^verbatim>\<open>Alice\<close>, two spaces, \<^verbatim>\<open>Bob\<close> give
  \<^verbatim>\<open>['Alice', '', 'Bob']\<close>. The lines are the pieces of the content, read with
  universal newlines, each up to and including its line feed.
\<close>

theorem contributors_one_per_line:
  "(\<exists>contr. get_contributors_list (w\<lparr>files := (files w)(filename \<mapsto> content)\<rparr>) filename
              = Inr contr
      \<and> contr = map strip (file_lines content)
      \<and> list_all2
           (\<lambda>line name.
              (\<exists>pre suf. line = pre @ name @ suf \<and> list_all isspace pre \<and> list_all isspace suf)
              \<and> (name = [] \<or> (\<not> isspace (hd name) \<and> \<not> isspace (last name))))
           (file_lines content) contr)
   \<and> concat (file_lines content) = universal_newlines content
   \<and> get_contributors_list
        (w\<lparr>files := (files w)(filename \<mapsto> ''Alice'' @ [LF] @ ''  '' @ [LF] @ ''Bob'' @ [LF])\<rparr>)
        filename = Inr [''Alice'', '''', ''Bob'']"
proof -
  have r: "get_contributors_list (w\<lparr>files := (files w)(filename \<mapsto> c)\<rparr>) filename
        = Inr (map strip (file_lines c))" for c
    by (simp add: get_contributors_list_def open_read_def contr_loop_map)
  have rel: "list_all2
           (\<lambda>line name.
              (\<exists>pre suf. line = pre @ name @ suf \<and> list_all isspace pre \<and> list_all isspace suf)
              \<and> (name = [] \<or> (\<not> isspace (hd name) \<and> \<not> isspace (last name))))
           ls (map strip ls)" for ls
    using strip_parts strip_ends by (simp add: list_all2_map2 list_all2_same)
  have ex: "map strip (file_lines (''Alice'' @ [LF] @ ''  '' @ [LF] @ ''Bob'' @ [LF]))
        = [''Alice'', '''', ''Bob'']"
    by (simp add: file_lines_def strip_def lstrip_def rstrip_def isspace_def)
  have cc: "concat (file_lines content) = universal_newlines content"
    by (simp add: file_lines_def lines_from_concat)
  show ?thesis using r rel ex cc by simp
qed

subsection \<open>The compiler options (C6)\<close>

lemma set_args_map: "set_args args es = map (\<lambda>e. e\<lparr>extra_compile_args := args\<rparr>) es"
  by (induction es) auto

text \<open>
  C6. With the compiler type \<^verbatim>\<open>msvc\<close>, \<^verbatim>\<open>build_extensions\<close> hands to the method it
  overrides the same command with the extra compile arguments of every extension set to
  exactly \<^verbatim>\<open>['/EHsc']\<close>, whatever they were; with a compiler type that is not a key
  of \<^verbatim>\<open>copt\<close>, such as \<^verbatim>\<open>gcc\<close>, it hands over the command unchanged. The step adds
  no failure of its own: its result is always that of the overridden method, called on
  a command with the same compiler and the same extensions up to those arguments.
\<close>

theorem build_extensions_flags:
  "build_extensions super (self\<lparr>compiler_type := ''msvc''\<rparr>)
     = super (self\<lparr>compiler_type := ''msvc'',
                   extensions := map (\<lambda>e. e\<lparr>extra_compile_args := [''/EHsc'']\<rparr>)
                                     (extensions self)\<rparr>)
   \<and> (map_of copt c = None \<longrightarrow>
        build_extensions super (self\<lparr>compiler_type := c\<rparr>) = super (self\<lparr>compiler_type := c\<rparr>))
   \<and> map_of copt ''gcc'' = None
   \<and> (\<exists>self'. build_extensions super self = super self'
         \<and> compiler_type self' = compiler_type self
         \<and> map ext_name (extensions self') = map ext_name (extensions self)
         \<and> map sources (extensions self') = map sources (extensions self)
         \<and> map include_dirs (extensions self') = map include_dirs (extensions self))"
proof -
  have msvc: "map_of copt ''msvc'' = Some [''/EHsc'']" by (simp add: copt_def)
  have gcc: "map_of copt ''gcc'' = None" by (simp add: copt_def)
  have a: "build_extensions super (self\<lparr>compiler_type := ''msvc''\<rparr>)
     = super (self\<lparr>compiler_type := ''msvc'',
                   extensions := map (\<lambda>e. e\<lparr>extra_compile_args := [''/EHsc'']\<rparr>)
                                     (extensions self)\<rparr>)"
    by (simp add: build_extensions_def msvc set_args_map)
  have b: "map_of copt c = None \<Longrightarrow>
        build_extensions super (self\<lparr>compiler_type := c\<rparr>) = super (self\<lparr>compiler_type := c\<rparr>)"
    by (simp add: build_extensions_def)
  have c: "\<exists>self'. build_extensions super self = super self'
         \<and> compiler_type self' = compiler_type self
         \<and> map ext_name (extensions self') = map ext_name (extensions self)
         \<and> map sources (extensions self') = map sources (extensions self)
         \<and> map include_dirs (extensions self') = map include_dirs (extensions self)"
    by (cases "map_of copt (compiler_type self)")
       (auto simp: build_extensions_def set_args_map comp_def)
  show ?thesis using a b c gcc by blast
qed

text \<open>
  C6 on one extension that came with \<^verbatim>\<open>-O2\<close>: kept under \<^verbatim>\<open>gcc\<close>, replaced under
  \<^verbatim>\<open>msvc\<close>. The overridden method is taken to return the extensions it is given.
\<close>

theorem build_extensions_flags_witness:
  "map_of copt ''gcc'' = None
   \<and> build_extensions extensions
        \<lparr>compiler_type = ''gcc'',
         extensions = [Extension ''caer.cconvex'' [''caer/cconvex.cpp''] [''include'']
                         \<lparr>extra_compile_args := [''-O2'']\<rparr>]\<rparr>
       = [Extension ''caer.cconvex'' [''caer/cconvex.cpp''] [''include'']
            \<lparr>extra_compile_args := [''-O2'']\<rparr>]
   \<and> build_extensions extensions
        \<lparr>compiler_type = ''msvc'',
         extensions = [Extension ''caer.cconvex'' [''caer/cconvex.cpp''] [''include'']
                         \<lparr>extra_compile_args := [''-O2'']\<rparr>]\<rparr>
       = [Extension ''caer.cconvex'' [''caer/cconvex.cpp''] [''include'']
            \<lparr>extra_compile_args := [''/EHsc'']\<rparr>]"
proof -
  let ?e = "Extension ''caer.cconvex'' [''caer/cconvex.cpp''] [''include'']
              \<lparr>extra_compile_args := [''-O2'']\<rparr>"
  let ?self = "\<lparr>compiler_type = ''gcc'', extensions = [?e]\<rparr>"
  note t = build_extensions_flags [of extensions ?self "''gcc''"]
  have g: "map_of copt ''gcc'' = None" by (rule t [THEN conjunct2, THEN conjunct2, THEN conjunct1])
  have 1: "build_extensions extensions (?self\<lparr>compiler_type := ''gcc''\<rparr>)
         = extensions (?self\<lparr>compiler_type := ''gcc''\<rparr>)"
    by (rule t [THEN conjunct2, THEN conjunct1, rule_format, OF g])
  have 2: "build_extensions extensions (?self\<lparr>compiler_type := ''msvc''\<rparr>)
     = extensions (?self\<lparr>compiler_type := ''msvc'',
                   extensions := map (\<lambda>e. e\<lparr>extra_compile_args := [''/EHsc'']\<rparr>)
                                     (extensions ?self)\<rparr>)"
    by (rule t [THEN conjunct1])
  show ?thesis using g 1 2 by (simp add: Extension_def)
qed

subsection \<open>Writing the meta module (C9)\<close>

lemma render_meta:
  "py_format META_PY_TEXT
     [''author'' \<mapsto> Str a, ''version'' \<mapsto> Str v, ''full_version'' \<mapsto> Str f,
      ''isrelease'' \<mapsto> Str r, ''contributors'' \<mapsto> StrList cs] =
   Inr ([LF] @ ''# This file is automatically generated during the generation of setup.py''
     @ [LF] @ ''# Copyright 2020, Caer''
     @ [LF] @ ''author = '' @ [SQ] @ a @ [SQ]
     @ [LF] @ ''version = '' @ [SQ] @ v @ [SQ]
     @ [LF] @ ''full_version = '' @ [SQ] @ f @ [SQ]
     @ [LF] @ ''release = '' @ r
     @ [LF] @ ''contributors = '' @ repr_list cs
     @ [LF])"
  by (simp add: py_format_def META_PY_TEXT_def)

lemma write_meta_result:
  "write_meta g E filename w =
     (case files w ''CONTRIBUTORS'' of
        None \<Rightarrow> (Inl (FileNotFoundError ''CONTRIBUTORS''), print ''[INFO] Writing _meta.py'' w)
      | Some c \<Rightarrow>
          if \<not> writable E filename
          then (Inl (OSError filename), print ''[INFO] Writing _meta.py'' w)
          else (Inr (),
                (print ''[INFO] Writing _meta.py'' w)
                  \<lparr>files := (files w)(filename \<mapsto>
                     [LF] @ ''# This file is automatically generated during the generation of setup.py''
                     @ [LF] @ ''# Copyright 2020, Caer''
                     @ [LF] @ ''author = '' @ [SQ] @ AUTHOR_LONG g @ [SQ]
                     @ [LF] @ ''version = '' @ [SQ] @ VERSION g @ [SQ]
                     @ [LF] @ ''full_version = '' @ [SQ] @ VERSION g @ [SQ]
                     @ [LF] @ ''release = '' @ str_bool (ISRELEASED g)
                     @ [LF] @ ''contributors = '' @ repr_list (map strip (file_lines c))
                     @ [LF])\<rparr>))"
  by (simp add: write_meta_def Let_def get_contributors_list_def open_read_def files_print
        contr_loop_map render_meta split: option.splits)

lemma write_meta_events: "events (snd (write_meta g E filename w)) = events w"
  by (simp add: write_meta_result events_print split: option.splits)

text \<open>
  C9. \<^verbatim>\<open>write_meta\<close> reads \<^verbatim>\<open>CONTRIBUTORS\<close> before it opens its output. When that
  file is missing the call ends with \<open>FileNotFoundError\<close> and every file is as it was,
  the meta module of an earlier build included; only the message has been printed.
\<close>

theorem contributors_missing_leaves_meta:
  assumes "files w ''CONTRIBUTORS'' = None"
  shows "fst (write_meta g E filename w) = Inl (FileNotFoundError ''CONTRIBUTORS'')
       \<and> files (snd (write_meta g E filename w)) = files w
       \<and> events (snd (write_meta g E filename w)) = events w"
  using assms by (simp add: write_meta_result files_print events_print)

text \<open>
  C9 on a project with no \<^verbatim>\<open>CONTRIBUTORS\<close> and a meta module from an earlier
  build: the module still holds its old content.
\<close>

theorem contributors_missing_leaves_meta_witness:
  "files (demo_world\<lparr>files := [''caer/_meta.py'' \<mapsto> ''old'']\<rparr>) ''CONTRIBUTORS'' = None
   \<and> (\<forall>g. fst (write_meta g (demo_env demo_metadata 0) ''caer/_meta.py''
                  (demo_world\<lparr>files := [''caer/_meta.py'' \<mapsto> ''old'']\<rparr>))
             = Inl (FileNotFoundError ''CONTRIBUTORS''))
   \<and> (\<forall>g. files (snd (write_meta g (demo_env demo_metadata 0) ''caer/_meta.py''
                         (demo_world\<lparr>files := [''caer/_meta.py'' \<mapsto> ''old'']\<rparr>)))
               ''caer/_meta.py''
             = Some ''old'')"
proof -
  let ?w = "demo_world\<lparr>files := [''caer/_meta.py'' \<mapsto> ''old'']\<rparr>"
  have h: "files ?w ''CONTRIBUTORS'' = None" by simp
  have f: "files ?w ''caer/_meta.py'' = Some ''old''" by simp
  note t = contributors_missing_leaves_meta [OF h, of _ "demo_env demo_metadata 0" "''caer/_meta.py''"]
  have 1: "fst (write_meta g (demo_env demo_metadata 0) ''caer/_meta.py'' ?w)
       = Inl (FileNotFoundError ''CONTRIBUTORS'')" for g
    by (rule t [THEN conjunct1])
  have 2: "files (snd (write_meta g (demo_env demo_metadata 0) ''caer/_meta.py'' ?w)) = files ?w"
    for g
    by (rule t [THEN conjunct2, THEN conjunct1])
  show ?thesis using h 1 2 f by simp
qed

subsection \<open>The setup variables\<close>

lemma version_string:
  "str_int MAJOR = ''1''" "str_int MINOR = ''3''" "str_int MICRO = ''3''"
  by (simp_all add: MAJOR_def MINOR_def MICRO_def str_int_def digits_of.simps digit_char_def)

lemma read_settings_Inr:
  assumes "config E ''metadata'' = Some cfg" and "config E ''options'' = Some opt"
    and "assert_expected cfg expected = Inr ()"
    and "read_error E = None" and "\<And>sect k. lookup_error E sect k = None"
    and "cfg ''name'' = Some name" and "cfg ''author'' = Some author"
    and "cfg ''author_email'' = Some author_email" and "cfg ''license'' = Some license"
    and "cfg ''git_url'' = Some url" and "cfg ''download_url'' = Some download_url"
    and "cfg ''description'' = Some description"
    and "files w ''LONG_DESCRIPTION.md'' = Some long_description"
    and "cfg ''keywords'' = Some keywords"
    and "opt ''pip_requirements'' = Some pip_requirements"
    and "cfg ''classifiers'' = Some classifiers"
    and "opt ''min_python'' = Some min_python"
  shows "read_settings E w =
     Inr \<lparr>VERSION = ''1.3.3'',
          ISRELEASED = True,
          RUN_CYTHON_BUILD = True,
          NAME = name,
          AUTHOR = author,
          AUTHOR_EMAIL = author_email,
          AUTHOR_LONG = author @ '' <'' @ author_email @ ''>'',
          LICENSE = license,
          URL = url,
          DOWNLOAD_URL = download_url,
          PACKAGES = found_packages E,
          DESCRIPTION = description,
          LONG_DESCRIPTION = universal_newlines long_description,
          KEYWORDS = py_split keywords '', '',
          REQUIREMENTS = py_split pip_requirements '', '',
          CLASSIFIERS = drop 1 (py_split classifiers [LF]),
          PYTHON_REQUIRES = ''>='' @ min_python,
          EXT_MODULES =
            map (\<lambda>(key, srcs). Extension key srcs [np_include E]) EXTENSIONS\<rparr>"
  using assms
  by (simp add: read_settings_def config_read_def getitem_def section_getitem_def thn_def
        open_read_def version_string)

lemma read_settings_fixed:
  assumes "read_settings E w = Inr g"
  shows "VERSION g = ''1.3.3''" and "ISRELEASED g" and "RUN_CYTHON_BUILD g"
    and "EXT_MODULES g = map (\<lambda>(key, srcs). Extension key srcs [np_include E]) EXTENSIONS"
  using assms by (auto simp: read_settings_def thn_Inr version_string)

lemma demo_settings:
  assumes "cfg = demo_metadata(''classifiers'' \<mapsto> cl)"
  shows "read_settings (demo_env cfg p) demo_world =
     Inr \<lparr>VERSION = ''1.3.3'',
          ISRELEASED = True,
          RUN_CYTHON_BUILD = True,
          NAME = ''caer'',
          AUTHOR = ''Jason'',
          AUTHOR_EMAIL = ''j@caer.org'',
          AUTHOR_LONG = ''Jason'' @ '' <'' @ ''j@caer.org'' @ ''>'',
          LICENSE = ''MIT'',
          URL = ''https://caer.org'',
          DOWNLOAD_URL = ''https://caer.org/dl'',
          PACKAGES = found_packages (demo_env cfg p),
          DESCRIPTION = ''Computer Vision'',
          LONG_DESCRIPTION = universal_newlines ''Caer'',
          KEYWORDS = py_split ''vision, video'' '', '',
          REQUIREMENTS = py_split ''numpy, opencv'' '', '',
          CLASSIFIERS = drop 1 (py_split cl [LF]),
          PYTHON_REQUIRES = ''>='' @ ''3.6.1'',
          EXT_MODULES =
            map (\<lambda>(key, srcs). Extension key srcs [np_include (demo_env cfg p)]) EXTENSIONS\<rparr>"
proof (rule read_settings_Inr)
  show "config (demo_env cfg p) ''metadata'' = Some cfg" by (simp add: demo_env_def)
  show "config (demo_env cfg p) ''options'' = Some demo_options" by (simp add: demo_env_def)
  show "assert_expected cfg expected = Inr ()"
    by (simp add: assms expected_keys demo_metadata_def)
  show "read_error (demo_env cfg p) = None" by (simp add: demo_env_def)
  show "lookup_error (demo_env cfg p) sect k = None" for sect k
    by (simp add: demo_env_def demo_lookup_error_def)
  show "cfg ''name'' = Some ''caer''" by (simp add: assms demo_metadata_def)
  show "cfg ''author'' = Some ''Jason''" by (simp add: assms demo_metadata_def)
  show "cfg ''author_email'' = Some ''j@caer.org''" by (simp add: assms demo_metadata_def)
  show "cfg ''license'' = Some ''MIT''" by (simp add: assms demo_metadata_def)
  show "cfg ''git_url'' = Some ''https://caer.org''" by (simp add: assms demo_metadata_def)
  show "cfg ''download_url'' = Some ''https://caer.org/dl''" by (simp add: assms demo_metadata_def)
  show "cfg ''description'' = Some ''Computer Vision''" by (simp add: assms demo_metadata_def)
  show "files demo_world ''LONG_DESCRIPTION.md'' = Some ''Caer''"
    by (simp add: demo_world_def demo_files_def)
  show "cfg ''keywords'' = Some ''vision, video''" by (simp add: assms demo_metadata_def)
  show "demo_options ''pip_requirements'' = Some ''numpy, opencv''" by (simp add: demo_options_def)
  show "cfg ''classifiers'' = Some cl" by (simp add: assms)
  show "demo_options ''min_python'' = Some ''3.6.1''" by (simp add: demo_options_def)
qed

lemma split_from_nonempty: "split_from sep cur s \<noteq> []"
  by (induction sep cur s rule: split_from.induct) auto

lemma read_settings_classifiers:
  assumes "read_settings E w = Inr g"
  shows "\<exists>cfg v. config E ''metadata'' = Some cfg \<and> cfg ''classifiers'' = Some v
           \<and> CLASSIFIERS g = drop 1 (py_split v [LF])"
  using assms
  by (auto simp: read_settings_def thn_Inr getitem_Inr config_read_Inr section_getitem_Inr)

subsection \<open>The small project\<close>

lemma demo_contributors:
  "files demo_world ''CONTRIBUTORS'' = Some (''Alice'' @ [LF] @ ''  '' @ [LF] @ ''Bob'' @ [LF])"
  by (simp add: demo_world_def demo_files_def)


lemma demo_writable: "writable (demo_env cfg p) path"
  by (simp add: demo_env_def demo_writable_def)

lemma demo_write_meta:
  "\<exists>w1. write_meta g (demo_env cfg p) ''caer/_meta.py'' demo_world = (Inr (), w1)"
  by (simp add: write_meta_result demo_contributors demo_writable)

subsection \<open>The meta module written twice (C5)\<close>

text \<open>
  C5. Let \<^verbatim>\<open>write_meta\<close> succeed, on an output that is not the file \<^verbatim>\<open>CONTRIBUTORS\<close>
  it reads (the script writes \<^verbatim>\<open>caer/_meta.py\<close>). Then writing again, with the same
  module variables, succeeds and leaves every file as the first writing left it, byte
  for byte; and whatever the output held before the first writing, old content
  included, the files after it are the same: the old content is replaced, not kept
  or appended to.
\<close>

theorem write_meta_idempotent:
  assumes "filename \<noteq> ''CONTRIBUTORS''" and "write_meta g E filename w = (Inr (), w1)"
  shows "(\<exists>w2. write_meta g E filename w1 = (Inr (), w2) \<and> files w2 = files w1)
       \<and> (\<forall>old. \<exists>w'. write_meta g E filename (w\<lparr>files := (files w)(filename \<mapsto> old)\<rparr>)
                          = (Inr (), w')
                      \<and> files w' = files w1)"
proof -
  from assms(2) obtain c where c: "files w ''CONTRIBUTORS'' = Some c"
    by (cases "files w ''CONTRIBUTORS''") (auto simp: write_meta_result)
  from assms(2) c have wr: "writable E filename"
    by (auto simp: write_meta_result split: if_splits)
  let ?text = "[LF] @ ''# This file is automatically generated during the generation of setup.py''
                     @ [LF] @ ''# Copyright 2020, Caer''
                     @ [LF] @ ''author = '' @ [SQ] @ AUTHOR_LONG g @ [SQ]
                     @ [LF] @ ''version = '' @ [SQ] @ VERSION g @ [SQ]
                     @ [LF] @ ''full_version = '' @ [SQ] @ VERSION g @ [SQ]
                     @ [LF] @ ''release = '' @ str_bool (ISRELEASED g)
                     @ [LF] @ ''contributors = '' @ repr_list (map strip (file_lines c))
                     @ [LF]"
  have w1: "w1 = (print ''[INFO] Writing _meta.py'' w)\<lparr>files := (files w)(filename \<mapsto> ?text)\<rparr>"
    using assms(2) c wr by (simp add: write_meta_result)
  have f1: "files w1 = (files w)(filename \<mapsto> ?text)" by (simp add: w1)
  have c1: "files w1 ''CONTRIBUTORS'' = Some c" using assms(1) c by (simp add: f1)
  have again: "write_meta g E filename w1
      = (Inr (), (print ''[INFO] Writing _meta.py'' w1)\<lparr>files := (files w1)(filename \<mapsto> ?text)\<rparr>)"
    using c1 wr by (simp add: write_meta_result)
  have same: "(files w1)(filename \<mapsto> ?text) = files w1" by (simp add: f1)
  have a: "\<exists>w2. write_meta g E filename w1 = (Inr (), w2) \<and> files w2 = files w1"
    using again same by simp
  have b: "\<exists>w'. write_meta g E filename (w\<lparr>files := (files w)(filename \<mapsto> old)\<rparr>) = (Inr (), w')
             \<and> files w' = files w1" for old
  proof -
    have "files (w\<lparr>files := (files w)(filename \<mapsto> old)\<rparr>) ''CONTRIBUTORS'' = Some c"
      using assms(1) c by simp
    then show ?thesis using wr by (simp add: write_meta_result f1)
  qed
  show ?thesis using a b by blast
qed

text \<open>
  C5 on the small project: the module is written, written again, and the files are
  the same.
\<close>

theorem write_meta_idempotent_witness:
  "''caer/_meta.py'' \<noteq> ''CONTRIBUTORS''
   \<and> (\<forall>g. \<exists>w1 w2.
         write_meta g (demo_env demo_metadata 0) ''caer/_meta.py'' demo_world = (Inr (), w1)
         \<and> write_meta g (demo_env demo_metadata 0) ''caer/_meta.py'' w1 = (Inr (), w2)
         \<and> files w2 = files w1
         \<and> files w2 ''caer/_meta.py'' = files w1 ''caer/_meta.py'')"
proof -
  have n: "''caer/_meta.py'' \<noteq> ''CONTRIBUTORS''" by simp
  have "\<exists>w1 w2.
         write_meta g (demo_env demo_metadata 0) ''caer/_meta.py'' demo_world = (Inr (), w1)
         \<and> write_meta g (demo_env demo_metadata 0) ''caer/_meta.py'' w1 = (Inr (), w2)
         \<and> files w2 = files w1
         \<and> files w2 ''caer/_meta.py'' = files w1 ''caer/_meta.py''" for g
  proof -
    obtain w1 where w1: "write_meta g (demo_env demo_metadata 0) ''caer/_meta.py'' demo_world
        = (Inr (), w1)"
      using demo_write_meta by blast
    from write_meta_idempotent [OF n w1, THEN conjunct1]
    obtain w2 where "write_meta g (demo_env demo_metadata 0) ''caer/_meta.py'' w1 = (Inr (), w2)"
      "files w2 = files w1" by blast
    with w1 show ?thesis by auto
  qed
  with n show ?thesis by blast
qed

subsection \<open>The version in the meta module (C7)\<close>



subsection \<open>The classifiers (C10)\<close>

text \<open>
  C10, as stated, fails where it says that the first line never appears among the
  classifiers: the first element is dropped by its position, not by its text. Here
  the value has the two lines \<^verbatim>\<open>A\<close> and \<^verbatim>\<open>A\<close>; the classifiers are \<^verbatim>\<open>['A']\<close>,
  and the first line is among them.
\<close>

theorem first_line_repeated:
  "py_split (''A'' @ [LF] @ ''A'') [LF] = [''A'', ''A'']
   \<and> map_sum id CLASSIFIERS
        (read_settings (demo_env (demo_metadata(''classifiers'' \<mapsto> ''A'' @ [LF] @ ''A'')) 0)
           demo_world)
       = Inr [''A'']"
proof -
  have s: "py_split (''A'' @ [LF] @ ''A'') [LF] = [''A'', ''A'']"
    by (simp add: py_split_def)
  show ?thesis
    by (simp only: demo_settings [OF refl] s)
       simp
qed

text \<open>
  C10, amended. When the setup variables are defined, \<^verbatim>\<open>CLASSIFIERS\<close> is the list of
  the lines of the configured value without its first element: the split always gives
  at least one line, the classifiers are the lines after the first, one fewer than the
  lines, and when no line of the value is repeated the first line is not among them.
\<close>

theorem classifiers_drop_first:
  assumes "read_settings E w = Inr g"
  shows "\<exists>cfg v. config E ''metadata'' = Some cfg \<and> cfg ''classifiers'' = Some v
           \<and> py_split v [LF] \<noteq> []
           \<and> CLASSIFIERS g = tl (py_split v [LF])
           \<and> length (CLASSIFIERS g) + 1 = length (py_split v [LF])
           \<and> (distinct (py_split v [LF]) \<longrightarrow> hd (py_split v [LF]) \<notin> set (CLASSIFIERS g))"
proof -
  obtain cfg v where c: "config E ''metadata'' = Some cfg" "cfg ''classifiers'' = Some v"
    "CLASSIFIERS g = drop 1 (py_split v [LF])"
    using read_settings_classifiers [OF assms] by blast
  have ne: "py_split v [LF] \<noteq> []" by (simp add: py_split_def split_from_nonempty)
  then obtain x xs where xs: "py_split v [LF] = x # xs" by (cases "py_split v [LF]") auto
  have "CLASSIFIERS g = tl (py_split v [LF])" using c(3) by (simp add: drop_Suc)
  then show ?thesis using c(1,2) ne xs by auto
qed

text \<open>
  The amended C10 on the small project, whose value begins with an empty line: the
  empty line is dropped and the two topics remain.
\<close>

theorem classifiers_drop_first_witness:
  "\<exists>g. read_settings (demo_env demo_metadata 0) demo_world = Inr g
     \<and> py_split ([LF] @ ''Topic :: A'' @ [LF] @ ''Topic :: B'') [LF]
         = ['''', ''Topic :: A'', ''Topic :: B'']
     \<and> distinct (py_split ([LF] @ ''Topic :: A'' @ [LF] @ ''Topic :: B'') [LF])
     \<and> CLASSIFIERS g = [''Topic :: A'', ''Topic :: B'']
     \<and> '''' \<notin> set (CLASSIFIERS g)"
proof -
  let ?E = "demo_env demo_metadata 0"
  let ?v = "[LF] @ ''Topic :: A'' @ [LF] @ ''Topic :: B''"
  have m: "demo_metadata = demo_metadata(''classifiers'' \<mapsto> ?v)"
    by (simp add: demo_metadata_def)
  obtain g where g: "read_settings ?E demo_world = Inr g"
    using demo_settings [OF m, of 0] by simp
  have s: "py_split ?v [LF] = ['''', ''Topic :: A'', ''Topic :: B'']"
    by (simp add: py_split_def)
  from classifiers_drop_first [OF g]
  obtain cfg v where cv: "config ?E ''metadata'' = Some cfg" "cfg ''classifiers'' = Some v"
    "CLASSIFIERS g = tl (py_split v [LF])"
    "distinct (py_split v [LF]) \<longrightarrow> hd (py_split v [LF]) \<notin> set (CLASSIFIERS g)"
    by blast
  have "cfg = demo_metadata" using cv(1) by (simp add: demo_env_def)
  then have "v = ?v" using cv(2) by (simp add: demo_metadata_def)
  then have "CLASSIFIERS g = [''Topic :: A'', ''Topic :: B'']"
    and "'''' \<notin> set (CLASSIFIERS g)"
    using cv(3,4) s by simp_all
  with g s show ?thesis by auto
qed

subsection \<open>The order of the run (C1)\<close>

lemma gate_events: "events (snd (is_right_py_version E m w)) = events w"
  by (simp add: is_right_py_version_def write_stderr_def Let_def
        split: sum.splits bool.splits)

lemma gate_files: "files (snd (is_right_py_version E m w)) = files w"
  by (simp add: is_right_py_version_def write_stderr_def Let_def
        split: sum.splits bool.splits)

lemma setup_call_result:
  "setup_call E md w =
     (case fst (backend E md (files w)) of None \<Rightarrow> Inr () | Some e \<Rightarrow> Inl e,
      w\<lparr>files := snd (backend E md (files w)), events := events w @ [SetupCalled md]\<rparr>)"
  by (simp add: setup_call_def Let_def split: prod.splits option.splits)

lemma built_append: "built (xs @ ys) = built xs @ built ys"
  by (induction xs rule: built.induct) auto

lemma built_map: "built (map ExtensionBuilt es) = es"
  by (induction es) auto

lemma built_map_comp: "built (map (ExtensionBuilt \<circ> f) xs) = map f xs"
  by (induction xs) auto

lemma delegated_map_comp: "delegated (map (ExtensionBuilt \<circ> f) xs) = []"
  by (induction xs) auto

lemma delegated_append: "delegated (xs @ ys) = delegated xs @ delegated ys"
  by (induction xs rule: delegated.induct) auto

lemma delegated_map: "delegated (map ExtensionBuilt es) = []"
  by (induction es) auto

lemma setup_package_trace:
  assumes "RUN_CYTHON_BUILD g" and "setup_package g E w = (r, w')"
  shows "events w' = events w
       \<or> (\<exists>p. p \<noteq> 0 \<and> events w' = events w @ [Cythonized p]
              \<and> r = Inl (RuntimeError ''[ERROR] Running cythonize failed!''))
       \<or> (\<exists>md. events w' = events w @ [Cythonized 0, SetupCalled md])"
proof (cases "write_meta g E ''caer/_meta.py'' w")
  case (Pair r1 w1)
  have e1: "events w1 = events w" using write_meta_events [of g E "''caer/_meta.py''" w] Pair by simp
  show ?thesis
  proof (cases r1)
    case (Inl e)
    then show ?thesis using assms(2) Pair e1 by (auto simp: setup_package_def)
  next
    case (Inr u)
    show ?thesis
    proof (cases "fst (cythonize E (files w1)) = 0")
      case True
      then show ?thesis
        using assms Pair Inr e1
        by (auto simp: setup_package_def generate_cython_result setup_call_result Let_def
              events_print)
    next
      case False
      then show ?thesis
        using assms Pair Inr e1
        by (auto simp: setup_package_def generate_cython_result Let_def events_print)
    qed
  qed
qed

lemma module_settings_cases:
  "module_settings E w = (Inl e, w2) \<Longrightarrow> w2 = w"
  "module_settings E w = (Inr g, w2) \<Longrightarrow>
     RUN_CYTHON_BUILD g
     \<and> w2 = w\<lparr>events := events w
                 @ map ExtensionBuilt
                     (map (\<lambda>(key, srcs). Extension key srcs [np_include E]) EXTENSIONS)\<rparr>"
  using read_settings_fixed [of E w g]
  by (auto simp: module_settings_def split: sum.splits)

lemma run_script_trace:
  assumes "events w = []" and "run_script E w = (r, w')"
  shows "events w' = []
       \<or> events w' = map ExtensionBuilt
                        (map (\<lambda>(key, srcs). Extension key srcs [np_include E]) EXTENSIONS)
       \<or> (\<exists>p. p \<noteq> 0
              \<and> events w' = map ExtensionBuilt
                   (map (\<lambda>(key, srcs). Extension key srcs [np_include E]) EXTENSIONS)
                   @ [Cythonized p]
              \<and> r = Inl (RuntimeError ''[ERROR] Running cythonize failed!''))
       \<or> (\<exists>md. events w' = map ExtensionBuilt
                   (map (\<lambda>(key, srcs). Extension key srcs [np_include E]) EXTENSIONS)
                   @ [Cythonized 0, SetupCalled md])"
proof (cases "accepts_source (version_info E)")
  case False
  then show ?thesis using assms by (simp add: run_script_def)
next
  case True
  obtain rg wg where gate: "is_right_py_version E min_version w = (rg, wg)"
    by (cases "is_right_py_version E min_version w")
  have eg: "events wg = []" using gate_events [of E min_version w] gate assms(1) by simp
  show ?thesis
  proof (cases "rg = Inr True \<and> imports_ok E")
    case False
    then have "w' = wg"
      using assms(2) True gate
      by (cases rg) (auto simp: run_script_def split: bool.splits if_splits)
    then show ?thesis using eg by simp
  next
    case ok: True
    obtain rs ws where ms: "module_settings E wg = (rs, ws)"
      by (cases "module_settings E wg")
    show ?thesis
    proof (cases rs)
      case (Inl e)
      then have "w' = ws" "ws = wg"
        using assms(2) True gate ok ms module_settings_cases(1) [of E wg e ws]
        by (auto simp: run_script_def)
      then show ?thesis using eg by simp
    next
      case (Inr g)
      have g: "RUN_CYTHON_BUILD g"
        and ews: "events ws = map ExtensionBuilt
                     (map (\<lambda>(key, srcs). Extension key srcs [np_include E]) EXTENSIONS)"
        using module_settings_cases(2) [of E wg g ws] ms Inr eg by auto
      have sp: "setup_package g E ws = (r, w')"
        using assms(2) True gate ok ms Inr by (auto simp: run_script_def)
      show ?thesis using setup_package_trace [OF g sp] ews by auto
    qed
  qed
qed

lemma run_script_generation_fails:
  assumes "tuple_lt (version_info E) min_version = Inr False" and "imports_ok E"
    and "read_settings E w = Inr g" and "files w ''CONTRIBUTORS'' = Some c"
    and "writable E ''caer/_meta.py''" and "\<And>fs. fst (cythonize E fs) = p" and "p \<noteq> 0"
  shows "fst (run_script E w) = Inl (RuntimeError ''[ERROR] Running cythonize failed!'')"
    and "events (snd (run_script E w))
           = events w @ map ExtensionBuilt (EXT_MODULES g) @ [Cythonized p]"
  using assms(3-7) read_settings_fixed(3) [OF assms(3)]
  by (simp_all add: run_script_past_gate [OF assms(1,2)] module_settings_def setup_package_def
        write_meta_result generate_cython_result Let_def files_print events_print)

lemma demo_run_fails:
  "fst (run_script (demo_env demo_metadata 1) demo_world)
     = Inl (RuntimeError ''[ERROR] Running cythonize failed!'')"
  "events (snd (run_script (demo_env demo_metadata 1) demo_world))
     = map ExtensionBuilt
         (map (\<lambda>(key, srcs). Extension key srcs [np_include (demo_env demo_metadata 1)])
            EXTENSIONS)
       @ [Cythonized 1]"
proof -
  let ?E = "demo_env demo_metadata 1"
  have m: "demo_metadata = demo_metadata(''classifiers'' \<mapsto> [LF] @ ''Topic :: A'' @ [LF] @ ''Topic :: B'')"
    by (simp add: demo_metadata_def)
  obtain g where g: "read_settings ?E demo_world = Inr g"
    using demo_settings [OF m, of 1] by simp
  have h1: "tuple_lt (version_info ?E) min_version = Inr False"
    by (simp add: demo_env_def min_version_def)
  have h2: "imports_ok ?E" by (simp add: demo_env_def)
  have h6: "fst (cythonize ?E fs) = 1" for fs by (simp add: demo_env_def demo_generator_def)
  have h7: "(1::int) \<noteq> 0" by simp
  note r = run_script_generation_fails [OF h1 h2 g demo_contributors demo_writable h6 h7]
  show "fst (run_script ?E demo_world) = Inl (RuntimeError ''[ERROR] Running cythonize failed!'')"
    by (rule r(1))
  show "events (snd (run_script ?E demo_world))
     = map ExtensionBuilt
         (map (\<lambda>(key, srcs). Extension key srcs [np_include ?E]) EXTENSIONS)
       @ [Cythonized 1]"
    using r(2) read_settings_fixed(4) [OF g] by (simp add: demo_world_def)
qed

lemma run_script_delegates:
  assumes "tuple_lt (version_info E) min_version = Inr False" and "imports_ok E"
    and "read_settings E w = Inr g" and "files w ''CONTRIBUTORS'' = Some c"
    and "writable E ''caer/_meta.py''" and "\<And>fs. fst (cythonize E fs) = 0"
  shows "\<exists>md. events (snd (run_script E w))
           = events w @ map ExtensionBuilt (EXT_MODULES g) @ [Cythonized 0, SetupCalled md]"
  using assms(3-6) read_settings_fixed(3) [OF assms(3)]
  by (simp add: run_script_past_gate [OF assms(1,2)] module_settings_def setup_package_def
        write_meta_result generate_cython_result setup_call_result Let_def files_print
        events_print)

lemma demo_run_delegates:
  "\<exists>md pre. events (snd (run_script (demo_env demo_metadata 0) demo_world))
      = pre @ [Cythonized 0, SetupCalled md]"
proof -
  let ?E = "demo_env demo_metadata 0"
  have m: "demo_metadata = demo_metadata(''classifiers'' \<mapsto> [LF] @ ''Topic :: A'' @ [LF] @ ''Topic :: B'')"
    by (simp add: demo_metadata_def)
  obtain g where g: "read_settings ?E demo_world = Inr g"
    using demo_settings [OF m, of 0] by simp
  have h1: "tuple_lt (version_info ?E) min_version = Inr False"
    by (simp add: demo_env_def min_version_def)
  have h2: "imports_ok ?E" by (simp add: demo_env_def)
  have h6: "fst (cythonize ?E fs) = 0" for fs by (simp add: demo_env_def demo_generator_def)
  from run_script_delegates [OF h1 h2 g demo_contributors demo_writable h6]
  obtain md where "events (snd (run_script ?E demo_world))
      = events demo_world @ map ExtensionBuilt (EXT_MODULES g) @ [Cythonized 0, SetupCalled md]"
    by blast
  then have "events (snd (run_script ?E demo_world))
      = (events demo_world @ map ExtensionBuilt (EXT_MODULES g)) @ [Cythonized 0, SetupCalled md]"
    by simp
  then show ?thesis by blast
qed

text \<open>
  C1, as stated, fails where it says that no extension descriptor has been built when
  the generator fails: the descriptors are built when the module is loaded (line 133),
  before \<^verbatim>\<open>setup_package()\<close> runs the generator (line 275). Here the generator exits
  with 1: the run ends with the \<open>RuntimeError\<close>, and the five extensions of the table
  have been constructed.
\<close>

theorem descriptors_built_before_generation:
  "fst (run_script (demo_env demo_metadata 1) demo_world)
     = Inl (RuntimeError ''[ERROR] Running cythonize failed!'')
   \<and> length (built (events (snd (run_script (demo_env demo_metadata 1) demo_world)))) = 5
   \<and> map ext_name (built (events (snd (run_script (demo_env demo_metadata 1) demo_world))))
       = [''caer.cconvex'', ''caer.cconvolve'', ''caer.cdistance'', ''caer.cmorph'',
          ''caer.ndi.cndi'']"
  by (simp add: demo_run_fails built_append built_map built_map_comp EXTENSIONS_def
        Extension_def)

text \<open>
  C1, amended. Take a run of the script from the start (no call made yet). If the
  generator was run and its exit status was not zero, the run ended with the
  \<open>RuntimeError\<close> of \<^verbatim>\<open>generate_cython\<close>, \<^verbatim>\<open>setup()\<close> was never called, and the
  descriptors constructed are those of the table \<^verbatim>\<open>EXTENSIONS\<close>, built at line 133
  before the generator ran and never handed to the backend. And in every run, a call
  of \<^verbatim>\<open>setup()\<close> comes directly after a run of the generator with exit status zero:
  the backend is never called before generation has succeeded.
\<close>

theorem generation_failure_halts:
  assumes "events w = []" and "run_script E w = (r, w')"
  shows "(\<forall>p. Cythonized p \<in> set (events w') \<and> p \<noteq> 0 \<longrightarrow>
            r = Inl (RuntimeError ''[ERROR] Running cythonize failed!'')
            \<and> delegated (events w') = []
            \<and> built (events w')
                = map (\<lambda>(key, srcs). Extension key srcs [np_include E]) EXTENSIONS)
       \<and> (\<forall>md. SetupCalled md \<in> set (events w') \<longrightarrow>
            (\<exists>pre. events w' = pre @ [Cythonized 0, SetupCalled md]))"
  using run_script_trace [OF assms]
  by (elim disjE exE conjE)
     (auto simp: built_append built_map delegated_append delegated_map built_map_comp
        delegated_map_comp)

text \<open>
  The amended C1 on the small project: with exit status 1 the run halts and nothing is
  delegated; with exit status 0 \<^verbatim>\<open>setup()\<close> is called, directly after the generator.
\<close>

theorem generation_failure_halts_witness:
  "events demo_world = []
   \<and> Cythonized 1 \<in> set (events (snd (run_script (demo_env demo_metadata 1) demo_world)))
   \<and> fst (run_script (demo_env demo_metadata 1) demo_world)
       = Inl (RuntimeError ''[ERROR] Running cythonize failed!'')
   \<and> delegated (events (snd (run_script (demo_env demo_metadata 1) demo_world))) = []
   \<and> (\<exists>md. SetupCalled md \<in> set (events (snd (run_script (demo_env demo_metadata 0) demo_world)))
         \<and> (\<exists>pre. events (snd (run_script (demo_env demo_metadata 0) demo_world))
                     = pre @ [Cythonized 0, SetupCalled md]))"
proof -
  let ?E = "demo_env demo_metadata 1"
  let ?r = "fst (run_script ?E demo_world)"
  let ?w = "snd (run_script ?E demo_world)"
  let ?F = "demo_env demo_metadata 0"
  let ?rs = "fst (run_script ?F demo_world)"
  let ?ws = "snd (run_script ?F demo_world)"
  have e: "events demo_world = []" by (simp add: demo_world_def)
  have run: "run_script ?E demo_world = (?r, ?w)" by simp
  have run0: "run_script ?F demo_world = (?rs, ?ws)" by simp
  have c: "Cythonized 1 \<in> set (events ?w)" by (simp add: demo_run_fails(2))
  have n: "(1::int) \<noteq> 0" by simp
  note t = generation_failure_halts [OF e run, THEN conjunct1, rule_format, OF conjI, OF c n]
  from t have a: "?r = Inl (RuntimeError ''[ERROR] Running cythonize failed!'')"
    and b: "delegated (events ?w) = []" by blast+
  obtain md pre where ev: "events ?ws = pre @ [Cythonized 0, SetupCalled md]"
    using demo_run_delegates by blast
  then have mem: "SetupCalled md \<in> set (events ?ws)" by simp
  have "\<exists>pre. events ?ws = pre @ [Cythonized 0, SetupCalled md]"
    by (rule generation_failure_halts [OF e run0, THEN conjunct2, rule_format, OF mem])
  with mem have d: "\<exists>md. SetupCalled md \<in> set (events ?ws)
         \<and> (\<exists>pre. events ?ws = pre @ [Cythonized 0, SetupCalled md])" by blast
  from e c a b d show ?thesis by blast
qed

subsection \<open>The interpreter gate (C8)\<close>

text \<open>
  What the gate does on an interpreter that can read the file: below the minimum
  3.6.1 the script ends with \<^verbatim>\<open>sys.exit(-1)\<close> and has touched no file and made no call
  (at or above it, \<open>run_script_past_gate\<close>: the run goes on to the settings). The
  interpreters that can read the file and are below the minimum are those of 3.6.0.
\<close>

lemma gate_refuses:
  assumes "accepts_source (version_info E)"
    and "tuple_lt (version_info E) min_version = Inr True"
  shows "fst (run_script E w) = Inl (SystemExit (- 1))"
    and "files (snd (run_script E w)) = files w"
    and "events (snd (run_script E w)) = events w"
proof -
  have three: "tuple_lt (version_info E) [3] = Inr False"
    using tuple_lt_prefix [of "version_info E" "[3]" "[6]"] assms(1)
    by (simp add: accepts_source_def)
  show "fst (run_script E w) = Inl (SystemExit (- 1))"
    and "files (snd (run_script E w)) = files w"
    and "events (snd (run_script E w)) = events w"
    using assms three
    by (simp_all add: run_script_def is_right_py_version_def write_stderr_def Let_def)
qed

text \<open>
  C8 fails on the code for the interpreters it is mostly about. The file uses
  formatted string literals, at line 54 and inside the gate itself (line 67), so an
  interpreter older than 3.6 refuses it with a \<open>SyntaxError\<close> before line 60 runs: the
  gate never gets to write its message or to exit with \<^verbatim>\<open>-1\<close>, and the branch for
  \<^verbatim>\<open>sys.version_info < (3,)\<close> (line 61) can never be taken. Here the interpreters are
  3.5.2 and 2.7.18, both below the minimum: the run ends with \<open>SyntaxError\<close>, the
  world untouched.
\<close>

theorem old_interpreter_syntax_error:
  "tuple_lt [PInt 3, PInt 5, PInt 2, PStr ''final'', PInt 0] min_version = Inr True
   \<and> run_script
        ((demo_env demo_metadata 0)\<lparr>version_info := [PInt 3, PInt 5, PInt 2, PStr ''final'', PInt 0]\<rparr>)
        demo_world
       = (Inl SyntaxError, demo_world)
   \<and> tuple_lt [PInt 2, PInt 7, PInt 18, PStr ''final'', PInt 0] min_version = Inr True
   \<and> run_script
        ((demo_env demo_metadata 0)\<lparr>version_info := [PInt 2, PInt 7, PInt 18, PStr ''final'', PInt 0]\<rparr>)
        demo_world
       = (Inl SyntaxError, demo_world)"
  by (simp add: run_script_def accepts_source_def min_version_def)

end
